theory Spec2Isabelle
  imports Main "HOL-Library.Sublist" "HOL-Library.AList"
begin

section \<open>Values handled by the compliance bridge\<close>

text \<open>
  The tool handlers of \<^verbatim>\<open>src/lib/mcp/server.py\<close> work on whatever
  \<^verbatim>\<open>response.json()\<close> returns, or on a literal mock dictionary. Such a value is
  modelled by \<open>json\<close>. A Python \<^verbatim>\<open>dict\<close> is an association list in insertion
  order; a key is looked up with \<open>map_of\<close>, and \<open>AList.clearjunk\<close> gives the items
  with each key once. Strings are lists of 8-bit characters, so the model is that of
  ASCII text. JSON numbers with a fraction or an exponent (Python floats) are not part
  of the model.
\<close>

datatype json =
    JNull
  | JBool bool
  | JInt int
  | JStr string
  | JList "json list"
  | JObj "(string \<times> json) list"

text \<open>The exceptions that subscripting, \<^verbatim>\<open>in\<close>, \<^verbatim>\<open>.get\<close> and \<^verbatim>\<open>for\<close> can raise.\<close>

datatype py_error =
    KeyError string
  | TypeError
  | AttributeError

type_synonym 'a result = "py_error + 'a"

definition bind_res :: "'a result \<Rightarrow> ('a \<Rightarrow> 'b result) \<Rightarrow> 'b result" where
  "bind_res m f = (case m of Inl e \<Rightarrow> Inl e | Inr x \<Rightarrow> f x)"

text \<open>
  A handler builds its report with \<^verbatim>\<open>result += ...\<close>. The pieces are evaluated from
  left to right, and the first exception ends the call.
\<close>

fun concat_res :: "string result list \<Rightarrow> string result" where
  "concat_res [] = Inr []"
| "concat_res (Inl e # ps) = Inl e"
| "concat_res (Inr s # ps) = (case concat_res ps of Inl e \<Rightarrow> Inl e | Inr t \<Rightarrow> Inr (s @ t))"

subsection \<open>Decimal and quoted output\<close>

definition digit_char :: "nat \<Rightarrow> char" where
  "digit_char n = ''0123456789abcdef'' ! n"

function str_nat :: "nat \<Rightarrow> string" where
  "str_nat n = (if n < 10 then [digit_char n] else str_nat (n div 10) @ [digit_char (n mod 10)])"
  by pat_completeness auto
termination
  by (relation "measure id") auto

declare str_nat.simps [simp del]

definition str_int :: "int \<Rightarrow> string" where
  "str_int i = (if i < 0 then ''-'' @ str_nat (nat (- i)) else str_nat (nat i))"

fun join :: "string \<Rightarrow> string list \<Rightarrow> string" where
  "join sep [] = []"
| "join sep [x] = x"
| "join sep (x # y # ys) = x @ sep @ join sep (y # ys)"

text \<open>
  \<^verbatim>\<open>repr\<close> of a string: double quotes when the text has a single quote and no
  double quote, single quotes otherwise; the quote and the backslash are escaped, tab,
  newline and carriage return are written \<^verbatim>\<open>\t \n \r\<close>, and any other control
  character as \<^verbatim>\<open>\xhh\<close>.
\<close>

definition repr_char :: "char \<Rightarrow> char \<Rightarrow> string" where
  "repr_char q c =
     (if c = q \<or> c = CHR 0x5C then [CHR 0x5C, c]
      else if c = CHR 0x09 then [CHR 0x5C, CHR ''t'']
      else if c = CHR 0x0A then [CHR 0x5C, CHR ''n'']
      else if c = CHR 0x0D then [CHR 0x5C, CHR ''r'']
      else if (of_char c :: nat) < 32 \<or> c = CHR 0x7F
        then [CHR 0x5C, CHR ''x'', digit_char (of_char c div 16), digit_char (of_char c mod 16)]
      else [c])"

definition repr_str :: "string \<Rightarrow> string" where
  "repr_str s =
     (let q = (if CHR 0x27 \<in> set s \<and> CHR 0x22 \<notin> set s then CHR 0x22 else CHR 0x27)
      in [q] @ concat (map (repr_char q) s) @ [q])"

lemma clearjunk_subset: "set (AList.clearjunk kvs) \<subseteq> set kvs"
  by (induction kvs rule: AList.clearjunk.induct) (auto simp: AList.delete_eq)

lemma size_list_mem: "x \<in> set xs \<Longrightarrow> f x < Suc (size_list f xs)"
  by (induction xs) auto

function (sequential) py_repr :: "json \<Rightarrow> string" where
  "py_repr JNull = ''None''"
| "py_repr (JBool b) = (if b then ''True'' else ''False'')"
| "py_repr (JInt i) = str_int i"
| "py_repr (JStr s) = repr_str s"
| "py_repr (JList xs) = ''['' @ join '', '' (map py_repr xs) @ '']''"
| "py_repr (JObj kvs) =
     ''{'' @ join '', '' (map (\<lambda>(k, v). repr_str k @ '': '' @ py_repr v) (AList.clearjunk kvs)) @ ''}''"
  by pat_completeness auto
termination
proof (relation "measure size")
  fix kvs :: "(string \<times> json) list" and x k v
  assume "x \<in> set (AList.clearjunk kvs)" "(k, v) = x"
  then have "(k, v) \<in> set kvs"
    using clearjunk_subset by auto
  then have "size_prod (\<lambda>x. 0) size (k, v) < Suc (size_list (size_prod (\<lambda>x. 0) size) kvs)"
    by (rule size_list_mem)
  then show "(v, JObj kvs) \<in> measure size"
    by simp
qed (auto simp: less_Suc_eq_le size_list_estimation')

text \<open>\<^verbatim>\<open>str(v)\<close>, which an f-string applies to each value it interpolates.\<close>

fun py_str :: "json \<Rightarrow> string" where
  "py_str (JStr s) = s"
| "py_str v = py_repr v"

subsection \<open>Python operations on a parsed value\<close>

text \<open>\<^verbatim>\<open>key in v\<close> for a string key.\<close>

fun py_in :: "string \<Rightarrow> json \<Rightarrow> bool result" where
  "py_in k (JObj kvs) = Inr (map_of kvs k \<noteq> None)"
| "py_in k (JList xs) = Inr (JStr k \<in> set xs)"
| "py_in k (JStr s) = Inr (sublist k s)"
| "py_in k v = Inl TypeError"

text \<open>\<^verbatim>\<open>v[key]\<close> for a string key.\<close>

fun py_getitem :: "json \<Rightarrow> string \<Rightarrow> json result" where
  "py_getitem (JObj kvs) k = (case map_of kvs k of None \<Rightarrow> Inl (KeyError k) | Some v \<Rightarrow> Inr v)"
| "py_getitem v k = Inl TypeError"

text \<open>\<^verbatim>\<open>v.get(key, default)\<close>; only a dictionary has the method.\<close>

fun py_get :: "json \<Rightarrow> string \<Rightarrow> json \<Rightarrow> json result" where
  "py_get (JObj kvs) k d = Inr (case map_of kvs k of None \<Rightarrow> d | Some v \<Rightarrow> v)"
| "py_get v k d = Inl AttributeError"

text \<open>Truth value of \<^verbatim>\<open>v\<close> in a condition.\<close>

fun py_bool :: "json \<Rightarrow> bool" where
  "py_bool JNull = False"
| "py_bool (JBool b) = b"
| "py_bool (JInt i) = (i \<noteq> 0)"
| "py_bool (JStr s) = (s \<noteq> [])"
| "py_bool (JList xs) = (xs \<noteq> [])"
| "py_bool (JObj kvs) = (kvs \<noteq> [])"

text \<open>The elements a \<^verbatim>\<open>for\<close> loop over \<^verbatim>\<open>v\<close> visits.\<close>

fun py_iter :: "json \<Rightarrow> json list result" where
  "py_iter (JList xs) = Inr xs"
| "py_iter (JObj kvs) = Inr (map (\<lambda>(k, v). JStr k) (AList.clearjunk kvs))"
| "py_iter (JStr s) = Inr (map (\<lambda>c. JStr [c]) s)"
| "py_iter v = Inl TypeError"

text \<open>\<^verbatim>\<open>for x in v: result += f(x)\<close>\<close>

definition py_for :: "json \<Rightarrow> (json \<Rightarrow> string result) \<Rightarrow> string result" where
  "py_for v f = bind_res (py_iter v) (\<lambda>xs. concat_res (map f xs))"

text \<open>\<^verbatim>\<open>if key in d: result += f(d[key])\<close>\<close>

definition when_present :: "json \<Rightarrow> string \<Rightarrow> (json \<Rightarrow> string result) \<Rightarrow> string result" where
  "when_present d k f =
     bind_res (py_in k d) (\<lambda>b. if b then bind_res (py_getitem d k) f else Inr [])"

text \<open>\<^verbatim>\<open>key in d and d[key]\<close> as a condition.\<close>

definition truthy_key :: "json \<Rightarrow> string \<Rightarrow> bool result" where
  "truthy_key d k =
     bind_res (py_in k d) (\<lambda>b. if b then bind_res (py_getitem d k) (\<lambda>v. Inr (py_bool v)) else Inr False)"

text \<open>
  \<^verbatim>\<open>if key in d and d[key]: result += head; for x in d[key]: result += f(x)\<close>
  followed by \<^verbatim>\<open>else: result += other\<close>; \<open>other\<close> is empty where the source has no
  \<^verbatim>\<open>else\<close>.
\<close>

definition when_truthy_for ::
  "json \<Rightarrow> string \<Rightarrow> string \<Rightarrow> (json \<Rightarrow> string result) \<Rightarrow> string \<Rightarrow> string result" where
  "when_truthy_for d k head f other =
     bind_res (truthy_key d k) (\<lambda>b.
       if b then concat_res [Inr head, bind_res (py_getitem d k) (\<lambda>xs. py_for xs f)]
       else Inr other)"

text \<open>The interpolations \<^verbatim>\<open>{d[key]}\<close> and \<^verbatim>\<open>{d.get(key, default)}\<close>.\<close>

definition fmt_item :: "json \<Rightarrow> string \<Rightarrow> string result" where
  "fmt_item d k = bind_res (py_getitem d k) (\<lambda>v. Inr (py_str v))"

definition fmt_get :: "json \<Rightarrow> string \<Rightarrow> json \<Rightarrow> string result" where
  "fmt_get d k dflt = bind_res (py_get d k dflt) (\<lambda>v. Inr (py_str v))"

subsection \<open>Clock and text helpers\<close>

record datetime =
  year :: nat
  month :: nat
  day :: nat
  hour :: nat
  minute :: nat
  second :: nat

definition valid_datetime :: "datetime \<Rightarrow> bool" where
  "valid_datetime t \<longleftrightarrow>
     1 \<le> year t \<and> year t \<le> 9999 \<and> 1 \<le> month t \<and> month t \<le> 12 \<and>
     1 \<le> day t \<and> day t \<le> 31 \<and> hour t < 24 \<and> minute t < 60 \<and> second t < 60"

definition zero_pad :: "nat \<Rightarrow> nat \<Rightarrow> string" where
  "zero_pad w n = replicate (w - length (str_nat n)) CHR ''0'' @ str_nat n"

text \<open>\<^verbatim>\<open>t.strftime('%Y-%m-%d %H:%M:%S')\<close>\<close>

definition strftime :: "datetime \<Rightarrow> string" where
  "strftime t =
     zero_pad 4 (year t) @ ''-'' @ zero_pad 2 (month t) @ ''-'' @ zero_pad 2 (day t) @ '' '' @
     zero_pad 2 (hour t) @ '':'' @ zero_pad 2 (minute t) @ '':'' @ zero_pad 2 (second t)"

datatype fmt_item_kind = Digit | Lit char

fun fits :: "fmt_item_kind \<Rightarrow> char \<Rightarrow> bool" where
  "fits Digit c = (c \<in> set ''0123456789'')"
| "fits (Lit l) c = (c = l)"

text \<open>The shape \<^verbatim>\<open>YYYY-MM-DD HH:MM:SS\<close>.\<close>

definition timestamp_pattern :: "fmt_item_kind list" where
  "timestamp_pattern =
     [Digit, Digit, Digit, Digit, Lit CHR ''-'', Digit, Digit, Lit CHR ''-'', Digit, Digit,
      Lit CHR '' '', Digit, Digit, Lit CHR '':'', Digit, Digit, Lit CHR '':'', Digit, Digit]"

definition matches_timestamp :: "string \<Rightarrow> bool" where
  "matches_timestamp s = list_all2 fits timestamp_pattern s"

definition upper_char :: "char \<Rightarrow> char" where
  "upper_char c =
     (case map_of (zip ''abcdefghijklmnopqrstuvwxyz'' ''ABCDEFGHIJKLMNOPQRSTUVWXYZ'') c of
        None \<Rightarrow> c | Some u \<Rightarrow> u)"

definition lower_char :: "char \<Rightarrow> char" where
  "lower_char c =
     (case map_of (zip ''ABCDEFGHIJKLMNOPQRSTUVWXYZ'' ''abcdefghijklmnopqrstuvwxyz'') c of
        None \<Rightarrow> c | Some l \<Rightarrow> l)"

text \<open>\<^verbatim>\<open>s.capitalize()\<close>: first character upper case, the rest lower case.\<close>

fun capitalize :: "string \<Rightarrow> string" where
  "capitalize [] = []"
| "capitalize (c # cs) = upper_char c # map lower_char cs"

section \<open>Upstream client\<close>

record config =
  api_base :: string
  api_key :: string
  development_mode :: "string option"

datatype http_verb = GET | POST

record http_call =
  call_verb :: http_verb
  call_url :: string
  call_headers :: "(string \<times> string) list"
  call_params :: "json option"
  call_json :: "json option"
  call_timeout :: nat

text \<open>
  What one call of the HTTP client does: it answers with a status code, the body text
  and what \<^verbatim>\<open>response.json()\<close> makes of the body (\<open>Inl\<close> the message of the exception
  when decoding raises), or it raises an \<^verbatim>\<open>httpx.RequestError\<close>, or some other
  exception, each with its message.
\<close>

datatype http_outcome =
    Response int string "string + json"
  | RequestError string
  | OtherError string

text \<open>\<^verbatim>\<open>response.raise_for_status()\<close> of the HTTP library raises unless the status is 2xx.\<close>

definition is_success :: "int \<Rightarrow> bool" where
  "is_success status \<longleftrightarrow> 200 \<le> status \<and> status \<le> 299"

definition error_payload :: "string \<Rightarrow> json" where
  "error_payload msg = JObj [(''error'', JStr msg)]"

text \<open>Lines 44 to 51: the status check, the decoding and the three handlers.\<close>

fun after_call :: "http_outcome \<Rightarrow> json" where
  "after_call (Response status body parsed) =
     (if is_success status
      then (case parsed of
              Inr v \<Rightarrow> v
            | Inl msg \<Rightarrow> error_payload (''Unexpected error: '' @ msg))
      else JObj [(''error'', JStr (''HTTP error: '' @ str_int status)), (''details'', JStr body)])"
| "after_call (RequestError msg) = error_payload (''Request error: '' @ msg)"
| "after_call (OtherError msg) = error_payload (''Unexpected error: '' @ msg)"

definition request_headers :: "config \<Rightarrow> (string \<times> string) list" where
  "request_headers c =
     [(''Authorization'', ''Bearer '' @ api_key c),
      (''Content-Type'', ''application/json''),
      (''Accept'', ''application/json'')]"

text \<open>
  \<^verbatim>\<open>make_api_request\<close> returns its payload together with the calls it made on the
  HTTP client, in order.
\<close>

definition make_api_request ::
  "config \<Rightarrow> (http_call \<Rightarrow> http_outcome) \<Rightarrow> string \<Rightarrow> string \<Rightarrow> json option \<Rightarrow> json option
     \<Rightarrow> json \<times> http_call list" where
  "make_api_request c client endpoint method params data =
     (let headers = request_headers c;
          url = api_base c @ ''/'' @ endpoint
      in if method = ''GET'' then
           (let call = \<lparr>call_verb = GET, call_url = url, call_headers = headers,
                        call_params = params, call_json = None, call_timeout = 30\<rparr>
            in (after_call (client call), [call]))
         else if method = ''POST'' then
           (let call = \<lparr>call_verb = POST, call_url = url, call_headers = headers,
                        call_params = None, call_json = data, call_timeout = 30\<rparr>
            in (after_call (client call), [call]))
         else (error_payload (''Unsupported method: '' @ method), []))"

text \<open>\<^verbatim>\<open>os.environ.get("DEVELOPMENT_MODE")\<close> as a condition: set, and not empty.\<close>

definition dev_mode :: "config \<Rightarrow> bool" where
  "dev_mode c = (case development_mode c of None \<Rightarrow> False | Some s \<Rightarrow> s \<noteq> [])"

record world =
  cfg :: config
  client :: "http_call \<Rightarrow> http_outcome"
  clock :: datetime

section \<open>Report rendering\<close>

text \<open>The check at the head of every handler: \<^verbatim>\<open>if "error" in data: return f"...{data['error']}"\<close>\<close>

definition error_or ::
  "string \<Rightarrow> json \<Rightarrow> string result \<Rightarrow> string result" where
  "error_or phrase data body =
     bind_res (py_in ''error'' data) (\<lambda>b.
       if b then bind_res (py_getitem data ''error'') (\<lambda>e. Inr (phrase @ py_str e))
       else body)"

subsection \<open>analyze_transaction, lines 88 to 116\<close>

definition transaction_issue :: "json \<Rightarrow> string result" where
  "transaction_issue issue =
     concat_res
       [Inr ''- **'', fmt_item issue ''category'', Inr ''**: '',
        fmt_item issue ''description'', Inr ''\<newline>'',
        when_present issue ''recommendation''
          (\<lambda>v. Inr (''  - Recommendation: '' @ py_str v @ ''\<newline>''))]"

definition regulatory_reference :: "json \<Rightarrow> string result" where
  "regulatory_reference ref =
     concat_res
       [Inr ''- '', fmt_item ref ''code'', Inr '': '', fmt_item ref ''description'',
        Inr ''\<newline>'']"

definition analyze_transaction_report :: "datetime \<Rightarrow> string \<Rightarrow> json \<Rightarrow> string result" where
  "analyze_transaction_report t transaction_id data =
     error_or ''Error analyzing transaction: '' data
       (concat_res
         [Inr ''## Transaction Compliance Analysis\<newline>\<newline>'',
          Inr (''**Transaction ID**: '' @ transaction_id @ ''\<newline>''),
          Inr (''**Analysis Time**: '' @ strftime t @ ''\<newline>\<newline>''),
          when_present data ''compliance_status''
            (\<lambda>v. Inr (''**Compliance Status**: '' @ py_str v @ ''\<newline>'')),
          when_present data ''risk_score''
            (\<lambda>v. Inr (''**Risk Score**: '' @ py_str v @ ''/100\<newline>'')),
          when_truthy_for data ''issues'' ''\<newline>### Identified Issues\<newline>\<newline>''
            transaction_issue ''\<newline>### No compliance issues detected\<newline>'',
          when_truthy_for data ''regulatory_references''
            ''\<newline>### Regulatory References\<newline>\<newline>'' regulatory_reference []])"

subsection \<open>verify_customer_kyc, lines 149 to 188\<close>

definition identity_verification_section :: "json \<Rightarrow> string result" where
  "identity_verification_section id_verification =
     concat_res
       [Inr ''\<newline>### Identity Verification\<newline>\<newline>'',
        Inr ''- **Status**: '', fmt_get id_verification ''status'' (JStr ''Unknown''),
        Inr ''\<newline>'',
        Inr ''- **Method**: '', fmt_get id_verification ''method'' (JStr ''Unknown''),
        Inr ''\<newline>'',
        when_truthy_for id_verification ''issues'' ''- **Issues**:\<newline>''
          (\<lambda>issue. Inr (''  - '' @ py_str issue @ ''\<newline>'')) []]"

definition watchlist_match :: "json \<Rightarrow> string result" where
  "watchlist_match m =
     concat_res
       [Inr ''  - '', fmt_get m ''list_name'' JNull, Inr '': '',
        fmt_get m ''match_details'' JNull, Inr ''\<newline>'']"

definition aml_screening_section :: "json \<Rightarrow> string result" where
  "aml_screening_section aml =
     concat_res
       [Inr ''\<newline>### AML Screening\<newline>\<newline>'',
        Inr ''- **Status**: '', fmt_get aml ''status'' (JStr ''Unknown''), Inr ''\<newline>'',
        Inr ''- **Risk Level**: '', fmt_get aml ''risk_level'' (JStr ''Unknown''),
        Inr ''\<newline>'',
        when_truthy_for aml ''matches'' ''- **Watchlist Matches**:\<newline>'' watchlist_match []]"

definition verify_customer_kyc_report :: "datetime \<Rightarrow> string \<Rightarrow> json \<Rightarrow> string result" where
  "verify_customer_kyc_report t customer_id data =
     error_or ''Error verifying customer KYC: '' data
       (concat_res
         [Inr ''## Customer KYC Verification\<newline>\<newline>'',
          Inr (''**Customer ID**: '' @ customer_id @ ''\<newline>''),
          Inr (''**Verification Time**: '' @ strftime t @ ''\<newline>\<newline>''),
          when_present data ''verification_status''
            (\<lambda>v. Inr (''**Verification Status**: '' @ py_str v @ ''\<newline>'')),
          when_present data ''verification_date''
            (\<lambda>v. Inr (''**Last Verified**: '' @ py_str v @ ''\<newline>'')),
          when_present data ''identity_verification'' identity_verification_section,
          when_present data ''aml_screening'' aml_screening_section,
          when_truthy_for data ''required_actions'' ''\<newline>### Required Actions\<newline>\<newline>''
            (\<lambda>action. Inr (''- '' @ py_str action @ ''\<newline>'')) []])"

subsection \<open>analyze_communication, lines 225 to 259\<close>

definition communication_issue :: "json \<Rightarrow> string result" where
  "communication_issue issue =
     concat_res
       [Inr ''- **'', fmt_item issue ''category'', Inr ''**: '',
        fmt_item issue ''description'', Inr ''\<newline>'',
        when_present issue ''severity''
          (\<lambda>v. Inr (''  - Severity: '' @ py_str v @ ''\<newline>'')),
        when_present issue ''context''
          (\<lambda>v. Inr (''  - Context: '' @ [CHR 0x22] @ py_str v @ [CHR 0x22] @ ''\<newline>''))]"

definition analyze_communication_report :: "datetime \<Rightarrow> string \<Rightarrow> json \<Rightarrow> string result" where
  "analyze_communication_report t communication_id data =
     error_or ''Error analyzing communication: '' data
       (concat_res
         [Inr ''## Communication Compliance Analysis\<newline>\<newline>'',
          Inr (''**Communication ID**: '' @ communication_id @ ''\<newline>''),
          Inr (''**Analysis Time**: '' @ strftime t @ ''\<newline>\<newline>''),
          when_present data ''communication_type''
            (\<lambda>v. Inr (''**Type**: '' @ py_str v @ ''\<newline>'')),
          when_present data ''compliance_status''
            (\<lambda>v. Inr (''**Compliance Status**: '' @ py_str v @ ''\<newline>'')),
          when_present data ''sentiment_analysis''
            (\<lambda>sentiment.
               concat_res
                 [Inr ''**Sentiment**: '', fmt_get sentiment ''overall'' (JStr ''Unknown''),
                  Inr ''\<newline>'']),
          when_truthy_for data ''issues'' ''\<newline>### Identified Issues\<newline>\<newline>''
            communication_issue ''\<newline>### No compliance issues detected\<newline>'',
          when_truthy_for data ''recommendations'' ''\<newline>### Recommendations\<newline>\<newline>''
            (\<lambda>rec. Inr (''- '' @ py_str rec @ ''\<newline>'')) []])"

subsection \<open>get_regulatory_updates, lines 302 to 325\<close>

definition regulatory_update :: "json \<Rightarrow> string result" where
  "regulatory_update update =
     concat_res
       [Inr ''### '', fmt_get update ''title'' (JStr ''Untitled Update''),
        Inr ''\<newline>\<newline>'',
        Inr ''**Date**: '', fmt_get update ''date'' (JStr ''Unknown''), Inr ''\<newline>'',
        Inr ''**Jurisdiction**: '', fmt_get update ''jurisdiction'' (JStr ''Global''),
        Inr ''\<newline>'',
        Inr ''**Category**: '', fmt_get update ''category'' (JStr ''General''),
        Inr ''\<newline>\<newline>'',
        fmt_get update ''summary'' (JStr ''No summary available''), Inr ''\<newline>\<newline>'',
        when_truthy_for update ''action_items'' ''**Required Actions**:\<newline>''
          (\<lambda>item. Inr (''- '' @ py_str item @ ''\<newline>'')) [],
        Inr ''\<newline>---\<newline>\<newline>'']"

definition get_regulatory_updates_report :: "json \<Rightarrow> string result" where
  "get_regulatory_updates_report data =
     error_or ''Error fetching regulatory updates: '' data
       (concat_res
         [Inr ''## Recent Regulatory Updates\<newline>\<newline>'',
          when_truthy_for data ''updates'' [] regulatory_update
            ''No recent regulatory updates available.\<newline>''])"

subsection \<open>generate_compliance_report, lines 396 to 436\<close>

definition risk_factor :: "json \<Rightarrow> string result" where
  "risk_factor factor =
     concat_res
       [Inr ''- **'', fmt_item factor ''name'', Inr ''**: '', fmt_item factor ''level'',
        Inr ''\<newline>'',
        when_present factor ''details'' (\<lambda>v. Inr (''  - '' @ py_str v @ ''\<newline>''))]"

definition status_category :: "json \<Rightarrow> string result" where
  "status_category category =
     concat_res
       [Inr ''- **'', fmt_item category ''name'', Inr ''**: '', fmt_item category ''status'',
        Inr ''\<newline>'',
        when_present category ''details'' (\<lambda>v. Inr (''  - '' @ py_str v @ ''\<newline>''))]"

definition risk_assessment_section :: "json \<Rightarrow> string result" where
  "risk_assessment_section risk =
     concat_res
       [Inr ''### Risk Assessment\<newline>\<newline>'',
        Inr ''**Overall Risk**: '', fmt_get risk ''overall'' (JStr ''Unknown''),
        Inr ''\<newline>'',
        when_truthy_for risk ''factors'' ''\<newline>**Risk Factors**:\<newline>'' risk_factor []]"

definition compliance_status_section :: "json \<Rightarrow> string result" where
  "compliance_status_section status =
     concat_res
       [Inr ''\<newline>### Compliance Status\<newline>\<newline>'',
        Inr ''**Status**: '', fmt_get status ''overall'' (JStr ''Unknown''),
        Inr ''\<newline>\<newline>'',
        when_truthy_for status ''categories'' [] status_category []]"

definition generate_compliance_report_report ::
  "datetime \<Rightarrow> string \<Rightarrow> string \<Rightarrow> json \<Rightarrow> string result" where
  "generate_compliance_report_report t entity_id report_type data =
     error_or ''Error generating compliance report: '' data
       (concat_res
         [Inr (''## '' @ capitalize report_type @ '' Compliance Report\<newline>\<newline>''),
          Inr (''**Entity ID**: '' @ entity_id @ ''\<newline>''),
          Inr (''**Report Time**: '' @ strftime t @ ''\<newline>''),
          Inr (''**Report Type**: '' @ capitalize report_type @ ''\<newline>\<newline>''),
          when_present data ''summary''
            (\<lambda>v. Inr (''### Summary\<newline>\<newline>'' @ py_str v @ ''\<newline>\<newline>'')),
          when_present data ''risk_assessment'' risk_assessment_section,
          when_present data ''compliance_status'' compliance_status_section,
          when_truthy_for data ''recommendations'' ''\<newline>### Recommendations\<newline>\<newline>''
            (\<lambda>rec. Inr (''- '' @ py_str rec @ ''\<newline>'')) []])"

section \<open>Mock data of development mode\<close>

definition analyze_transaction_mock :: json where
  "analyze_transaction_mock =
     JObj
       [(''compliance_status'', JStr ''COMPLIANT''),
        (''risk_score'', JInt 25),
        (''issues'',
           JList
             [JObj
                [(''category'', JStr ''Documentation''),
                 (''description'',
                    JStr ''Missing secondary verification for high-value transaction''),
                 (''recommendation'',
                    JStr ''Request additional documentation from the customer'')]]),
        (''regulatory_references'',
           JList
             [JObj
                [(''code'', JStr ''REG-123''),
                 (''description'',
                    JStr ''High-value transaction verification requirements'')]])]"

definition verify_customer_kyc_mock :: json where
  "verify_customer_kyc_mock =
     JObj
       [(''verification_status'', JStr ''VERIFIED''),
        (''verification_date'', JStr ''2025-03-15''),
        (''identity_verification'',
           JObj
             [(''status'', JStr ''VERIFIED''),
              (''method'', JStr ''Document Verification + Biometric''),
              (''issues'', JList [])]),
        (''aml_screening'',
           JObj
             [(''status'', JStr ''CLEARED''),
              (''risk_level'', JStr ''LOW''),
              (''matches'', JList [])]),
        (''required_actions'', JList [])]"

definition analyze_communication_mock :: json where
  "analyze_communication_mock =
     JObj
       [(''communication_type'', JStr ''Email''),
        (''compliance_status'', JStr ''REVIEW_REQUIRED''),
        (''sentiment_analysis'', JObj [(''overall'', JStr ''Neutral'')]),
        (''issues'',
           JList
             [JObj
                [(''category'', JStr ''Disclosure''),
                 (''description'', JStr ''Missing required risk disclosure''),
                 (''severity'', JStr ''Medium''),
                 (''context'',
                    JStr ''We recommend investing in our new high-yield fund...'')]]),
        (''recommendations'',
           JList
             [JStr ''Add standard risk disclosure statement'',
              JStr ''Include performance disclaimer''])]"

definition get_regulatory_updates_mock :: json where
  "get_regulatory_updates_mock =
     JObj
       [(''updates'',
           JList
             [JObj
                [(''title'', JStr ''New AML Reporting Requirements''),
                 (''date'', JStr ''2025-03-01''),
                 (''jurisdiction'', JStr ''United States''),
                 (''category'', JStr ''Anti-Money Laundering''),
                 (''summary'',
                    JStr (''The Financial Crimes Enforcement Network (FinCEN) has issued new ''
                      @ ''guidelines for reporting suspicious transactions related to ''
                      @ ''cryptocurrency exchanges.'')),
                 (''action_items'',
                    JList
                      [JStr ''Update AML monitoring systems'',
                       JStr ''Train compliance staff on new requirements'',
                       JStr ''Implement enhanced due diligence for crypto transactions''])],
              JObj
                [(''title'', JStr ''ESG Disclosure Framework''),
                 (''date'', JStr ''2025-02-15''),
                 (''jurisdiction'', JStr ''European Union''),
                 (''category'', JStr ''ESG Compliance''),
                 (''summary'',
                    JStr (''The European Securities and Markets Authority (ESMA) has finalized ''
                      @ ''the new ESG disclosure framework for financial products.'')),
                 (''action_items'',
                    JList
                      [JStr ''Assess current ESG reporting capabilities'',
                       JStr ''Implement new disclosure templates'',
                       JStr ''Review investment products for compliance''])]])]"

definition generate_compliance_report_mock :: json where
  "generate_compliance_report_mock =
     JObj
       [(''summary'',
           JStr (''This entity is generally compliant with current regulations, ''
             @ ''with minor issues requiring attention.'')),
        (''risk_assessment'',
           JObj
             [(''overall'', JStr ''Medium-Low''),
              (''factors'',
                 JList
                   [JObj
                      [(''name'', JStr ''Transaction Volume''),
                       (''level'', JStr ''Medium''),
                       (''details'',
                          JStr ''Higher than average transaction volume for this customer segment'')],
                    JObj
                      [(''name'', JStr ''Geographic Risk''),
                       (''level'', JStr ''Low''),
                       (''details'', JStr ''Operations primarily in low-risk jurisdictions'')],
                    JObj
                      [(''name'', JStr ''Customer Due Diligence''),
                       (''level'', JStr ''Low''),
                       (''details'',
                          JStr ''All required documentation is complete and verified'')]])]),
        (''compliance_status'',
           JObj
             [(''overall'', JStr ''Compliant with Exceptions''),
              (''categories'',
                 JList
                   [JObj
                      [(''name'', JStr ''KYC/AML''),
                       (''status'', JStr ''Compliant''),
                       (''details'', JStr ''All KYC requirements met'')],
                    JObj
                      [(''name'', JStr ''Regulatory Reporting''),
                       (''status'', JStr ''Compliant with Exceptions''),
                       (''details'', JStr ''One late filing in the past quarter'')],
                    JObj
                      [(''name'', JStr ''Transaction Monitoring''),
                       (''status'', JStr ''Compliant''),
                       (''details'', JStr ''No suspicious activity detected'')]])]),
        (''recommendations'',
           JList
             [JStr ''Review and update customer risk profile'',
              JStr ''Implement additional monitoring for high-volume transactions'',
              JStr ''Schedule quarterly compliance review''])]"

section \<open>The five tools\<close>

text \<open>
  Each tool returns its report, or the exception that ended the call, together with the
  calls made on the HTTP client.
\<close>

definition fetch_then ::
  "(json \<Rightarrow> string result) \<Rightarrow> json \<times> http_call list \<Rightarrow> string result \<times> http_call list" where
  "fetch_then render r = (render (fst r), snd r)"

definition analyze_transaction :: "world \<Rightarrow> string \<Rightarrow> string result \<times> http_call list" where
  "analyze_transaction w transaction_id =
     (if dev_mode (cfg w)
      then (analyze_transaction_report (clock w) transaction_id analyze_transaction_mock, [])
      else fetch_then (analyze_transaction_report (clock w) transaction_id)
             (make_api_request (cfg w) (client w)
                (''transactions/'' @ transaction_id @ ''/analyze'') ''GET'' None None))"

definition verify_customer_kyc :: "world \<Rightarrow> string \<Rightarrow> string result \<times> http_call list" where
  "verify_customer_kyc w customer_id =
     (if dev_mode (cfg w)
      then (verify_customer_kyc_report (clock w) customer_id verify_customer_kyc_mock, [])
      else fetch_then (verify_customer_kyc_report (clock w) customer_id)
             (make_api_request (cfg w) (client w)
                (''customers/'' @ customer_id @ ''/kyc'') ''GET'' None None))"

definition analyze_communication :: "world \<Rightarrow> string \<Rightarrow> string result \<times> http_call list" where
  "analyze_communication w communication_id =
     (if dev_mode (cfg w)
      then (analyze_communication_report (clock w) communication_id analyze_communication_mock, [])
      else fetch_then (analyze_communication_report (clock w) communication_id)
             (make_api_request (cfg w) (client w)
                (''communications/'' @ communication_id @ ''/analyze'') ''GET'' None None))"

definition get_regulatory_updates :: "world \<Rightarrow> string result \<times> http_call list" where
  "get_regulatory_updates w =
     (if dev_mode (cfg w)
      then (get_regulatory_updates_report get_regulatory_updates_mock, [])
      else fetch_then get_regulatory_updates_report
             (make_api_request (cfg w) (client w) ''regulatory/updates'' ''GET'' None None))"

definition generate_compliance_report ::
  "world \<Rightarrow> string \<Rightarrow> string \<Rightarrow> string result \<times> http_call list" where
  "generate_compliance_report w entity_id report_type =
     (if dev_mode (cfg w)
      then (generate_compliance_report_report (clock w) entity_id report_type
              generate_compliance_report_mock, [])
      else fetch_then (generate_compliance_report_report (clock w) entity_id report_type)
             (make_api_request (cfg w) (client w) ''reports/generate'' ''POST'' None
                (Some (JObj [(''entity_id'', JStr entity_id),
                             (''report_type'', JStr report_type)]))))"

section \<open>Well-shaped payloads\<close>

text \<open>
  The shape of a payload that the handlers read without an exception: a section that is
  present has the type the handler expects, and an entry that is subscripted carries the
  keys that are read with \<^verbatim>\<open>entry[key]\<close>.
\<close>

definition is_dict :: "json \<Rightarrow> bool" where
  "is_dict v = (case v of JObj kvs \<Rightarrow> True | _ \<Rightarrow> False)"

text \<open>A dictionary that has every key of \<open>ks\<close>.\<close>

definition has_keys :: "string list \<Rightarrow> json \<Rightarrow> bool" where
  "has_keys ks v = (case v of JObj kvs \<Rightarrow> list_all (\<lambda>k. map_of kvs k \<noteq> None) ks | _ \<Rightarrow> False)"

text \<open>A list whose entries all satisfy \<open>P\<close>.\<close>

definition list_of :: "(json \<Rightarrow> bool) \<Rightarrow> json \<Rightarrow> bool" where
  "list_of P v = (case v of JList xs \<Rightarrow> list_all P xs | _ \<Rightarrow> False)"

text \<open>A dictionary in which the key \<open>k\<close> is absent, or holds a value that satisfies \<open>P\<close>.\<close>

definition optional :: "string \<Rightarrow> (json \<Rightarrow> bool) \<Rightarrow> json \<Rightarrow> bool" where
  "optional k P d =
     (case d of JObj kvs \<Rightarrow> (case map_of kvs k of None \<Rightarrow> True | Some v \<Rightarrow> P v) | _ \<Rightarrow> False)"

definition any_value :: "json \<Rightarrow> bool" where
  "any_value v = True"

definition transaction_payload :: "json \<Rightarrow> bool" where
  "transaction_payload d \<longleftrightarrow>
     optional ''issues'' (list_of (has_keys [''category'', ''description''])) d \<and>
     optional ''regulatory_references'' (list_of (has_keys [''code'', ''description''])) d"

definition kyc_payload :: "json \<Rightarrow> bool" where
  "kyc_payload d \<longleftrightarrow>
     optional ''identity_verification'' (optional ''issues'' (list_of any_value)) d \<and>
     optional ''aml_screening'' (optional ''matches'' (list_of is_dict)) d \<and>
     optional ''required_actions'' (list_of any_value) d"

definition communication_payload :: "json \<Rightarrow> bool" where
  "communication_payload d \<longleftrightarrow>
     optional ''sentiment_analysis'' is_dict d \<and>
     optional ''issues'' (list_of (has_keys [''category'', ''description''])) d \<and>
     optional ''recommendations'' (list_of any_value) d"

definition updates_payload :: "json \<Rightarrow> bool" where
  "updates_payload d \<longleftrightarrow>
     optional ''updates'' (list_of (optional ''action_items'' (list_of any_value))) d"

definition report_payload :: "json \<Rightarrow> bool" where
  "report_payload d \<longleftrightarrow>
     optional ''risk_assessment'' (optional ''factors'' (list_of (has_keys [''name'', ''level'']))) d \<and>
     optional ''compliance_status''
       (optional ''categories'' (list_of (has_keys [''name'', ''status'']))) d \<and>
     optional ''recommendations'' (list_of any_value) d"

text \<open>A call that ends with a value, not with an exception.\<close>

definition returns :: "'a result \<Rightarrow> bool" where
  "returns r = (case r of Inl e \<Rightarrow> False | Inr x \<Rightarrow> True)"

section \<open>Sample inputs\<close>

definition sample_clock :: datetime where
  "sample_clock = \<lparr>year = 2025, month = 3, day = 15, hour = 9, minute = 5, second = 0\<rparr>"

definition sample_config :: "string option \<Rightarrow> config" where
  "sample_config dev =
     \<lparr>api_base = ''https://api.compliance-service.com'', api_key = ''secret'',
      development_mode = dev\<rparr>"

definition sample_world :: "string option \<Rightarrow> http_outcome \<Rightarrow> world" where
  "sample_world dev outcome =
     \<lparr>cfg = sample_config dev, client = (\<lambda>call. outcome), clock = sample_clock\<rparr>"

definition mixed_payload :: "(string \<times> json) list" where
  "mixed_payload =
     [(''compliance_status'', JStr ''COMPLIANT''),
      (''issues'', JList [JObj []]),
      (''updates'', JList [JObj [(''title'', JStr ''T'')]]),
      (''error'', JStr ''boom''),
      (''summary'', JStr ''fine'')]"

definition sparse_payload :: json where
  "sparse_payload =
     JObj
       [(''issues'',
           JList [JObj [(''category'', JStr ''Documentation''),
                        (''description'', JStr ''Late filing'')]]),
        (''identity_verification'', JObj []),
        (''aml_screening'', JObj [(''matches'', JList [JObj []])]),
        (''updates'', JList [JObj []]),
        (''risk_assessment'',
           JObj [(''factors'', JList [JObj [(''name'', JStr ''Volume''),
                                            (''level'', JStr ''Low'')]])])]"

definition no_issues_payload :: "(string \<times> json) list" where
  "no_issues_payload =
     [(''compliance_status'', JStr ''COMPLIANT''),
      (''risk_score'', JInt 10),
      (''issues'', JList []),
      (''sentiment_analysis'', JObj [(''overall'', JStr ''Positive'')])]"


section \<open>Properties\<close>

subsection \<open>Auxiliary facts\<close>

lemmas report_defs =
  analyze_transaction_report_def verify_customer_kyc_report_def analyze_communication_report_def
  get_regulatory_updates_report_def generate_compliance_report_report_def

lemmas render_defs =
  error_or_def bind_res_def when_present_def when_truthy_for_def truthy_key_def py_for_def
  fmt_item_def fmt_get_def transaction_issue_def regulatory_reference_def
  identity_verification_section_def watchlist_match_def aml_screening_section_def
  communication_issue_def regulatory_update_def risk_factor_def status_category_def
  risk_assessment_section_def compliance_status_section_def

lemmas tool_defs =
  analyze_transaction_def verify_customer_kyc_def analyze_communication_def
  get_regulatory_updates_def generate_compliance_report_def

lemma error_or_error:
  "map_of kvs ''error'' = Some e \<Longrightarrow> error_or phrase (JObj kvs) body = Inr (phrase @ py_str e)"
  by (simp add: error_or_def bind_res_def)

lemma error_or_no_error:
  "map_of kvs ''error'' = None \<Longrightarrow> error_or phrase (JObj kvs) body = body"
  by (simp add: error_or_def bind_res_def)

lemma str_int_503: "str_int 503 = ''503''"
  by (simp add: str_int_def str_nat.simps digit_char_def)

lemma str_int_25: "str_int 25 = ''25''"
  by (simp add: str_int_def str_nat.simps digit_char_def)

subsection \<open>Error payloads\<close>

text \<open>
  Claim C10. A payload dictionary that has the key \<^verbatim>\<open>error\<close> is rendered by every handler
  as the single error line of that tool, whatever other keys it carries: the check of the
  key comes before any section of the report.
\<close>

theorem error_key_wins:
  assumes "map_of kvs ''error'' = Some e"
  shows "analyze_transaction_report t transaction_id (JObj kvs)
           = Inr (''Error analyzing transaction: '' @ py_str e)
       \<and> verify_customer_kyc_report t customer_id (JObj kvs)
           = Inr (''Error verifying customer KYC: '' @ py_str e)
       \<and> analyze_communication_report t communication_id (JObj kvs)
           = Inr (''Error analyzing communication: '' @ py_str e)
       \<and> get_regulatory_updates_report (JObj kvs)
           = Inr (''Error fetching regulatory updates: '' @ py_str e)
       \<and> generate_compliance_report_report t entity_id report_type (JObj kvs)
           = Inr (''Error generating compliance report: '' @ py_str e)"
  using assms by (simp add: report_defs error_or_error)

theorem error_key_wins_witness:
  "map_of mixed_payload ''error'' = Some (JStr ''boom'')
   \<and> analyze_transaction_report sample_clock ''TX1'' (JObj mixed_payload)
       = Inr ''Error analyzing transaction: boom''
   \<and> verify_customer_kyc_report sample_clock ''C1'' (JObj mixed_payload)
       = Inr ''Error verifying customer KYC: boom''
   \<and> analyze_communication_report sample_clock ''M1'' (JObj mixed_payload)
       = Inr ''Error analyzing communication: boom''
   \<and> get_regulatory_updates_report (JObj mixed_payload)
       = Inr ''Error fetching regulatory updates: boom''
   \<and> generate_compliance_report_report sample_clock ''E1'' ''summary'' (JObj mixed_payload)
       = Inr ''Error generating compliance report: boom''"
proof -
  have h: "map_of mixed_payload ''error'' = Some (JStr ''boom'')"
    by (simp add: mixed_payload_def)
  show ?thesis
    using h error_key_wins [OF h, of sample_clock "''TX1''" "''C1''" "''M1''" "''E1''" "''summary''"]
    by simp
qed

text \<open>
  Claim C2. An error payload \<^verbatim>\<open>{error: e}\<close> or \<^verbatim>\<open>{error: e, details: d}\<close> is rendered
  as exactly the tool's phrase followed by \<open>e\<close>; the details never appear. Outside
  development mode, when the upstream answers with a status that is not 2xx, each tool
  returns its phrase followed by \<^verbatim>\<open>HTTP error:\<close> and the status code, whatever the
  body; for status 503 \<^verbatim>\<open>verify_customer_kyc\<close> returns exactly
  \<^verbatim>\<open>Error verifying customer KYC: HTTP error: 503\<close>.
\<close>

theorem error_payload_single_line:
  "(data = JObj [(''error'', JStr e)] \<or> data = JObj [(''error'', JStr e), (''details'', JStr d)]
      \<longrightarrow> analyze_transaction_report t transaction_id data
            = Inr (''Error analyzing transaction: '' @ e)
        \<and> verify_customer_kyc_report t customer_id data
            = Inr (''Error verifying customer KYC: '' @ e)
        \<and> analyze_communication_report t communication_id data
            = Inr (''Error analyzing communication: '' @ e)
        \<and> get_regulatory_updates_report data
            = Inr (''Error fetching regulatory updates: '' @ e)
        \<and> generate_compliance_report_report t entity_id report_type data
            = Inr (''Error generating compliance report: '' @ e))
   \<and> (\<not> dev_mode (cfg w) \<and> (\<forall>call. client w call = Response status body parsed)
        \<and> \<not> is_success status
      \<longrightarrow> fst (analyze_transaction w transaction_id)
            = Inr (''Error analyzing transaction: HTTP error: '' @ str_int status)
        \<and> fst (verify_customer_kyc w customer_id)
            = Inr (''Error verifying customer KYC: HTTP error: '' @ str_int status)
        \<and> fst (analyze_communication w communication_id)
            = Inr (''Error analyzing communication: HTTP error: '' @ str_int status)
        \<and> fst (get_regulatory_updates w)
            = Inr (''Error fetching regulatory updates: HTTP error: '' @ str_int status)
        \<and> fst (generate_compliance_report w entity_id report_type)
            = Inr (''Error generating compliance report: HTTP error: '' @ str_int status))
   \<and> (\<not> dev_mode (cfg w) \<and> (\<forall>call. client w call = Response 503 body parsed)
      \<longrightarrow> fst (verify_customer_kyc w customer_id)
            = Inr ''Error verifying customer KYC: HTTP error: 503'')"
  by (auto simp: report_defs error_or_error tool_defs fetch_then_def
        make_api_request_def Let_def is_success_def str_int_503)

theorem error_payload_single_line_witness:
  "(JObj [(''error'', JStr ''HTTP error: 503''), (''details'', JStr ''Service unavailable'')]
      = JObj [(''error'', JStr ''HTTP error: 503'')]
    \<or> JObj [(''error'', JStr ''HTTP error: 503''), (''details'', JStr ''Service unavailable'')]
      = JObj [(''error'', JStr ''HTTP error: 503''), (''details'', JStr ''Service unavailable'')])
   \<and> analyze_transaction_report sample_clock ''TX1''
         (JObj [(''error'', JStr ''HTTP error: 503''), (''details'', JStr ''Service unavailable'')])
       = Inr ''Error analyzing transaction: HTTP error: 503''
   \<and> get_regulatory_updates_report
         (JObj [(''error'', JStr ''HTTP error: 503''), (''details'', JStr ''Service unavailable'')])
       = Inr ''Error fetching regulatory updates: HTTP error: 503''
   \<and> \<not> dev_mode (cfg (sample_world None (Response 503 ''Service unavailable'' (Inl ''no JSON''))))
   \<and> (\<forall>call. client (sample_world None (Response 503 ''Service unavailable'' (Inl ''no JSON''))) call
          = Response 503 ''Service unavailable'' (Inl ''no JSON''))
   \<and> \<not> is_success 503
   \<and> fst (get_regulatory_updates
            (sample_world None (Response 503 ''Service unavailable'' (Inl ''no JSON''))))
       = Inr ''Error fetching regulatory updates: HTTP error: 503''
   \<and> fst (verify_customer_kyc
            (sample_world None (Response 503 ''Service unavailable'' (Inl ''no JSON''))) ''C1'')
       = Inr ''Error verifying customer KYC: HTTP error: 503''"
  using error_payload_single_line
    [where data = "JObj [(''error'', JStr ''HTTP error: 503''), (''details'', JStr ''Service unavailable'')]"
       and e = "''HTTP error: 503''" and d = "''Service unavailable''" and t = sample_clock
       and transaction_id = "''TX1''" and customer_id = "''C1''" and communication_id = "''M1''"
       and entity_id = "''E1''" and report_type = "''summary''"
       and w = "sample_world None (Response 503 ''Service unavailable'' (Inl ''no JSON''))"
       and status = 503 and body = "''Service unavailable''" and parsed = "Inl ''no JSON''"]
  by (simp add: sample_world_def sample_config_def dev_mode_def is_success_def str_int_503)

subsection \<open>Classification of upstream outcomes\<close>

text \<open>
  Claim C3. \<^verbatim>\<open>make_api_request\<close> puts every outcome into one shape. A method other than
  GET and POST gives \<^verbatim>\<open>Unsupported method\<close> and no call is made. With GET or POST one
  call is made, on the base URL joined with the endpoint, and its outcome decides the
  payload: the decoded body for a 2xx status, \<^verbatim>\<open>HTTP error\<close> with the status code and
  the body text as details for any other status, \<^verbatim>\<open>Request error\<close> for a transport
  failure, and \<^verbatim>\<open>Unexpected error\<close> for anything else, a body that does not decode
  included.
\<close>

theorem make_api_request_classifies:
  "(method \<noteq> ''GET'' \<and> method \<noteq> ''POST'' \<longrightarrow>
      make_api_request c cl endpoint method params data
        = (JObj [(''error'', JStr (''Unsupported method: '' @ method))], []))
   \<and> (method = ''GET'' \<or> method = ''POST'' \<longrightarrow>
      (\<exists>call. snd (make_api_request c cl endpoint method params data) = [call]
         \<and> call_url call = api_base c @ ''/'' @ endpoint
         \<and> call_verb call = (if method = ''GET'' then GET else POST)
         \<and> fst (make_api_request c cl endpoint method params data)
             = (case cl call of
                  Response status body parsed \<Rightarrow>
                    if 200 \<le> status \<and> status \<le> 299
                    then (case parsed of
                            Inr v \<Rightarrow> v
                          | Inl msg \<Rightarrow> JObj [(''error'', JStr (''Unexpected error: '' @ msg))])
                    else JObj [(''error'', JStr (''HTTP error: '' @ str_int status)),
                               (''details'', JStr body)]
                | RequestError msg \<Rightarrow> JObj [(''error'', JStr (''Request error: '' @ msg))]
                | OtherError msg \<Rightarrow> JObj [(''error'', JStr (''Unexpected error: '' @ msg))])))"
  by (auto simp: make_api_request_def Let_def error_payload_def is_success_def
        split: http_outcome.splits sum.splits)

theorem make_api_request_classifies_witness:
  "''DELETE'' \<noteq> ''GET'' \<and> ''DELETE'' \<noteq> ''POST''
   \<and> make_api_request (sample_config None) (\<lambda>call. Response 200 ''{}'' (Inr (JObj [])))
       ''regulatory/updates'' ''DELETE'' None None
     = (JObj [(''error'', JStr ''Unsupported method: DELETE'')], [])
   \<and> fst (make_api_request (sample_config None)
            (\<lambda>call. Response 404 ''Not found'' (Inl ''no JSON'')) ''regulatory/updates'' ''GET''
            None None)
     = JObj [(''error'', JStr ''HTTP error: 404''), (''details'', JStr ''Not found'')]
   \<and> fst (make_api_request (sample_config None)
            (\<lambda>call. Response 200 ''{updates: []}'' (Inr (JObj [(''updates'', JList [])])))
            ''regulatory/updates'' ''GET'' None None)
     = JObj [(''updates'', JList [])]
   \<and> fst (make_api_request (sample_config None) (\<lambda>call. RequestError ''timed out'')
            ''reports/generate'' ''POST'' None (Some (JObj [])))
     = JObj [(''error'', JStr ''Request error: timed out'')]
   \<and> fst (make_api_request (sample_config None) (\<lambda>call. OtherError ''bad'')
            ''reports/generate'' ''POST'' None (Some (JObj [])))
     = JObj [(''error'', JStr ''Unexpected error: bad'')]"
proof -
  have 1: "str_int 404 = ''404''"
    by (simp add: str_int_def str_nat.simps digit_char_def)
  show ?thesis
    using
      make_api_request_classifies [of "''DELETE''" "sample_config None"
        "\<lambda>call. Response 200 ''{}'' (Inr (JObj []))" "''regulatory/updates''" None None]
      make_api_request_classifies [of "''GET''" "sample_config None"
        "\<lambda>call. Response 404 ''Not found'' (Inl ''no JSON'')" "''regulatory/updates''" None None]
      make_api_request_classifies [of "''GET''" "sample_config None"
        "\<lambda>call. Response 200 ''{updates: []}'' (Inr (JObj [(''updates'', JList [])]))"
        "''regulatory/updates''" None None]
      make_api_request_classifies [of "''POST''" "sample_config None"
        "\<lambda>call. RequestError ''timed out''" "''reports/generate''" None "Some (JObj [])"]
      make_api_request_classifies [of "''POST''" "sample_config None"
        "\<lambda>call. OtherError ''bad''" "''reports/generate''" None "Some (JObj [])"]
    by (auto simp: 1)
qed

subsection \<open>Development mode and upstream requests\<close>

lemma dev_analyze_transaction:
  "dev_mode (cfg w) \<Longrightarrow>
   analyze_transaction w transaction_id =
     (Inr (''## Transaction Compliance Analysis\<newline>\<newline>**Transaction ID**: '' @ transaction_id
           @ ''\<newline>**Analysis Time**: '' @ strftime (clock w)
           @ ''\<newline>\<newline>**Compliance Status**: COMPLIANT\<newline>**Risk Score**: 25/100\<newline>''
           @ ''\<newline>### Identified Issues\<newline>\<newline>''
           @ ''- **Documentation**: Missing secondary verification for high-value transaction\<newline>''
           @ ''  - Recommendation: Request additional documentation from the customer\<newline>''
           @ ''\<newline>### Regulatory References\<newline>\<newline>''
           @ ''- REG-123: High-value transaction verification requirements\<newline>''), [])"
  by (simp add: analyze_transaction_def analyze_transaction_mock_def analyze_transaction_report_def
        render_defs str_int_25)

lemma dev_verify_customer_kyc:
  "dev_mode (cfg w) \<Longrightarrow>
   verify_customer_kyc w customer_id =
     (Inr (''## Customer KYC Verification\<newline>\<newline>**Customer ID**: '' @ customer_id
           @ ''\<newline>**Verification Time**: '' @ strftime (clock w)
           @ ''\<newline>\<newline>**Verification Status**: VERIFIED\<newline>**Last Verified**: 2025-03-15\<newline>''
           @ ''\<newline>### Identity Verification\<newline>\<newline>- **Status**: VERIFIED\<newline>''
           @ ''- **Method**: Document Verification + Biometric\<newline>''
           @ ''\<newline>### AML Screening\<newline>\<newline>- **Status**: CLEARED\<newline>''
           @ ''- **Risk Level**: LOW\<newline>''), [])"
  by (simp add: verify_customer_kyc_def verify_customer_kyc_mock_def verify_customer_kyc_report_def
        render_defs)

lemma dev_analyze_communication:
  "dev_mode (cfg w) \<Longrightarrow>
   analyze_communication w communication_id =
     (Inr (''## Communication Compliance Analysis\<newline>\<newline>**Communication ID**: ''
           @ communication_id @ ''\<newline>**Analysis Time**: '' @ strftime (clock w)
           @ ''\<newline>\<newline>**Type**: Email\<newline>**Compliance Status**: REVIEW_REQUIRED\<newline>''
           @ ''**Sentiment**: Neutral\<newline>\<newline>### Identified Issues\<newline>\<newline>''
           @ ''- **Disclosure**: Missing required risk disclosure\<newline>  - Severity: Medium\<newline>''
           @ ''  - Context: '' @ [CHR 0x22]
           @ ''We recommend investing in our new high-yield fund...'' @ [CHR 0x22]
           @ ''\<newline>\<newline>### Recommendations\<newline>\<newline>''
           @ ''- Add standard risk disclosure statement\<newline>''
           @ ''- Include performance disclaimer\<newline>''), [])"
  by (simp add: analyze_communication_def analyze_communication_mock_def
        analyze_communication_report_def render_defs)

lemma dev_get_regulatory_updates:
  "dev_mode (cfg w) \<Longrightarrow>
   get_regulatory_updates w =
     (Inr (''## Recent Regulatory Updates\<newline>\<newline>''
           @ ''### New AML Reporting Requirements\<newline>\<newline>**Date**: 2025-03-01\<newline>''
           @ ''**Jurisdiction**: United States\<newline>**Category**: Anti-Money Laundering\<newline>\<newline>''
           @ ''The Financial Crimes Enforcement Network (FinCEN) has issued new guidelines for ''
           @ ''reporting suspicious transactions related to cryptocurrency exchanges.\<newline>\<newline>''
           @ ''**Required Actions**:\<newline>- Update AML monitoring systems\<newline>''
           @ ''- Train compliance staff on new requirements\<newline>''
           @ ''- Implement enhanced due diligence for crypto transactions\<newline>\<newline>---\<newline>\<newline>''
           @ ''### ESG Disclosure Framework\<newline>\<newline>**Date**: 2025-02-15\<newline>''
           @ ''**Jurisdiction**: European Union\<newline>**Category**: ESG Compliance\<newline>\<newline>''
           @ ''The European Securities and Markets Authority (ESMA) has finalized the new ESG ''
           @ ''disclosure framework for financial products.\<newline>\<newline>''
           @ ''**Required Actions**:\<newline>- Assess current ESG reporting capabilities\<newline>''
           @ ''- Implement new disclosure templates\<newline>''
           @ ''- Review investment products for compliance\<newline>\<newline>---\<newline>\<newline>''), [])"
  by (simp add: get_regulatory_updates_def get_regulatory_updates_mock_def
        get_regulatory_updates_report_def render_defs)

lemma dev_generate_compliance_report:
  "dev_mode (cfg w) \<Longrightarrow>
   generate_compliance_report w entity_id report_type =
     (Inr (''## '' @ capitalize report_type @ '' Compliance Report\<newline>\<newline>**Entity ID**: ''
           @ entity_id @ ''\<newline>**Report Time**: '' @ strftime (clock w)
           @ ''\<newline>**Report Type**: '' @ capitalize report_type
           @ ''\<newline>\<newline>### Summary\<newline>\<newline>''
           @ ''This entity is generally compliant with current regulations, ''
           @ ''with minor issues requiring attention.\<newline>\<newline>''
           @ ''### Risk Assessment\<newline>\<newline>**Overall Risk**: Medium-Low\<newline>''
           @ ''\<newline>**Risk Factors**:\<newline>- **Transaction Volume**: Medium\<newline>''
           @ ''  - Higher than average transaction volume for this customer segment\<newline>''
           @ ''- **Geographic Risk**: Low\<newline>''
           @ ''  - Operations primarily in low-risk jurisdictions\<newline>''
           @ ''- **Customer Due Diligence**: Low\<newline>''
           @ ''  - All required documentation is complete and verified\<newline>''
           @ ''\<newline>### Compliance Status\<newline>\<newline>**Status**: Compliant with Exceptions\<newline>\<newline>''
           @ ''- **KYC/AML**: Compliant\<newline>  - All KYC requirements met\<newline>''
           @ ''- **Regulatory Reporting**: Compliant with Exceptions\<newline>''
           @ ''  - One late filing in the past quarter\<newline>''
           @ ''- **Transaction Monitoring**: Compliant\<newline>''
           @ ''  - No suspicious activity detected\<newline>''
           @ ''\<newline>### Recommendations\<newline>\<newline>''
           @ concat (map (\<lambda>rec. ''- '' @ rec @ ''\<newline>'')
               [''Review and update customer risk profile'',
                ''Implement additional monitoring for high-volume transactions'',
                ''Schedule quarterly compliance review''])), [])"
  by (simp add: generate_compliance_report_def generate_compliance_report_mock_def
        generate_compliance_report_report_def render_defs)

text \<open>
  Claim C6. In development mode each of the five tools makes no call on the HTTP client
  and returns a report that is not empty and starts with the heading line of the tool.
\<close>

theorem development_mode_offline:
  assumes "dev_mode (cfg w)"
  shows "(snd (analyze_transaction w transaction_id) = []
          \<and> (\<exists>r. fst (analyze_transaction w transaction_id) = Inr r \<and> r \<noteq> []
               \<and> prefix ''## Transaction Compliance Analysis\<newline>'' r))
       \<and> (snd (verify_customer_kyc w customer_id) = []
          \<and> (\<exists>r. fst (verify_customer_kyc w customer_id) = Inr r \<and> r \<noteq> []
               \<and> prefix ''## Customer KYC Verification\<newline>'' r))
       \<and> (snd (analyze_communication w communication_id) = []
          \<and> (\<exists>r. fst (analyze_communication w communication_id) = Inr r \<and> r \<noteq> []
               \<and> prefix ''## Communication Compliance Analysis\<newline>'' r))
       \<and> (snd (get_regulatory_updates w) = []
          \<and> (\<exists>r. fst (get_regulatory_updates w) = Inr r \<and> r \<noteq> []
               \<and> prefix ''## Recent Regulatory Updates\<newline>'' r))
       \<and> (snd (generate_compliance_report w entity_id report_type) = []
          \<and> (\<exists>r. fst (generate_compliance_report w entity_id report_type) = Inr r \<and> r \<noteq> []
               \<and> prefix (''## '' @ capitalize report_type @ '' Compliance Report\<newline>'') r))"
proof -
  note a = assms
  show ?thesis
    by (simp add: dev_analyze_transaction [OF a] dev_verify_customer_kyc [OF a]
          dev_analyze_communication [OF a] dev_get_regulatory_updates [OF a]
          dev_generate_compliance_report [OF a])
qed

lemma dev_sample_world: "dev_mode (cfg (sample_world (Some ''1'') outcome))"
  by (simp add: sample_world_def sample_config_def dev_mode_def)

lemma not_dev_sample_world: "\<not> dev_mode (cfg (sample_world None outcome))"
  by (simp add: sample_world_def sample_config_def dev_mode_def)

theorem development_mode_offline_witness:
  "dev_mode (cfg (sample_world (Some ''1'') (OtherError ''unreachable'')))
   \<and> snd (analyze_transaction (sample_world (Some ''1'') (OtherError ''unreachable'')) ''TX123'') = []
   \<and> (\<exists>r. fst (analyze_transaction (sample_world (Some ''1'') (OtherError ''unreachable'')) ''TX123'')
            = Inr r \<and> r \<noteq> [] \<and> prefix ''## Transaction Compliance Analysis\<newline>'' r)
   \<and> snd (generate_compliance_report (sample_world (Some ''1'') (OtherError ''unreachable''))
            ''E1'' ''audit'') = []
   \<and> (\<exists>r. fst (generate_compliance_report (sample_world (Some ''1'') (OtherError ''unreachable''))
                 ''E1'' ''audit'')
            = Inr r \<and> r \<noteq> [] \<and> prefix ''## Audit Compliance Report\<newline>'' r)"
proof -
  show ?thesis
    using development_mode_offline [OF dev_sample_world,
        where outcome1 = "OtherError ''unreachable''" and transaction_id = "''TX123''"
          and customer_id = "''C1''" and communication_id = "''M1''"
          and entity_id = "''E1''" and report_type = "''audit''"]
    by (simp add: dev_sample_world upper_char_def lower_char_def)
qed

text \<open>
  Claim C7. Outside development mode each tool makes exactly one call, the one of its row
  in the table of endpoints: four GET requests without parameters, and a POST to
  \<^verbatim>\<open>reports/generate\<close> whose JSON body holds \<^verbatim>\<open>entity_id\<close> and \<^verbatim>\<open>report_type\<close>.
\<close>

theorem upstream_requests:
  assumes "\<not> dev_mode (cfg w)"
  shows "snd (analyze_transaction w transaction_id) =
           [\<lparr>call_verb = GET,
             call_url = api_base (cfg w) @ ''/transactions/'' @ transaction_id @ ''/analyze'',
             call_headers = request_headers (cfg w), call_params = None, call_json = None,
             call_timeout = 30\<rparr>]
       \<and> snd (verify_customer_kyc w customer_id) =
           [\<lparr>call_verb = GET,
             call_url = api_base (cfg w) @ ''/customers/'' @ customer_id @ ''/kyc'',
             call_headers = request_headers (cfg w), call_params = None, call_json = None,
             call_timeout = 30\<rparr>]
       \<and> snd (analyze_communication w communication_id) =
           [\<lparr>call_verb = GET,
             call_url = api_base (cfg w) @ ''/communications/'' @ communication_id @ ''/analyze'',
             call_headers = request_headers (cfg w), call_params = None, call_json = None,
             call_timeout = 30\<rparr>]
       \<and> snd (get_regulatory_updates w) =
           [\<lparr>call_verb = GET,
             call_url = api_base (cfg w) @ ''/regulatory/updates'',
             call_headers = request_headers (cfg w), call_params = None, call_json = None,
             call_timeout = 30\<rparr>]
       \<and> snd (generate_compliance_report w entity_id report_type) =
           [\<lparr>call_verb = POST,
             call_url = api_base (cfg w) @ ''/reports/generate'',
             call_headers = request_headers (cfg w), call_params = None,
             call_json = Some (JObj [(''entity_id'', JStr entity_id),
                                     (''report_type'', JStr report_type)]),
             call_timeout = 30\<rparr>]"
  using assms by (simp add: tool_defs fetch_then_def make_api_request_def Let_def)

theorem upstream_requests_witness:
  "\<not> dev_mode (cfg (sample_world None (RequestError ''connection refused'')))
   \<and> snd (analyze_transaction (sample_world None (RequestError ''connection refused'')) ''TX123'') =
       [\<lparr>call_verb = GET,
         call_url = ''https://api.compliance-service.com/transactions/TX123/analyze'',
         call_headers = [(''Authorization'', ''Bearer secret''),
                         (''Content-Type'', ''application/json''),
                         (''Accept'', ''application/json'')],
         call_params = None, call_json = None, call_timeout = 30\<rparr>]
   \<and> snd (generate_compliance_report (sample_world None (RequestError ''connection refused''))
            ''E1'' ''summary'') =
       [\<lparr>call_verb = POST,
         call_url = ''https://api.compliance-service.com/reports/generate'',
         call_headers = [(''Authorization'', ''Bearer secret''),
                         (''Content-Type'', ''application/json''),
                         (''Accept'', ''application/json'')],
         call_params = None,
         call_json = Some (JObj [(''entity_id'', JStr ''E1''), (''report_type'', JStr ''summary'')]),
         call_timeout = 30\<rparr>]"
  using upstream_requests [OF not_dev_sample_world,
      where outcome1 = "RequestError ''connection refused''" and transaction_id = "''TX123''"
        and customer_id = "''C1''" and communication_id = "''M1''"
        and entity_id = "''E1''" and report_type = "''summary''"]
  by (simp add: sample_world_def sample_config_def request_headers_def dev_mode_def)

text \<open>
  Claim C9. In development mode \<^verbatim>\<open>generate_compliance_report("E1", "summary")\<close> returns
  the report below: its first line is \<^verbatim>\<open>## Summary Compliance Report\<close>, and the section
  of recommendations, which ends the report, has exactly three bullets.
\<close>

theorem summary_report_in_development_mode:
  assumes "dev_mode (cfg w)"
  shows "fst (generate_compliance_report w ''E1'' ''summary'') =
     Inr (''## Summary Compliance Report\<newline>\<newline>**Entity ID**: E1\<newline>**Report Time**: ''
          @ strftime (clock w)
          @ ''\<newline>**Report Type**: Summary\<newline>\<newline>### Summary\<newline>\<newline>''
          @ ''This entity is generally compliant with current regulations, ''
          @ ''with minor issues requiring attention.\<newline>\<newline>''
          @ ''### Risk Assessment\<newline>\<newline>**Overall Risk**: Medium-Low\<newline>''
          @ ''\<newline>**Risk Factors**:\<newline>- **Transaction Volume**: Medium\<newline>''
          @ ''  - Higher than average transaction volume for this customer segment\<newline>''
          @ ''- **Geographic Risk**: Low\<newline>''
          @ ''  - Operations primarily in low-risk jurisdictions\<newline>''
          @ ''- **Customer Due Diligence**: Low\<newline>''
          @ ''  - All required documentation is complete and verified\<newline>''
          @ ''\<newline>### Compliance Status\<newline>\<newline>**Status**: Compliant with Exceptions\<newline>\<newline>''
          @ ''- **KYC/AML**: Compliant\<newline>  - All KYC requirements met\<newline>''
          @ ''- **Regulatory Reporting**: Compliant with Exceptions\<newline>''
          @ ''  - One late filing in the past quarter\<newline>''
          @ ''- **Transaction Monitoring**: Compliant\<newline>''
          @ ''  - No suspicious activity detected\<newline>''
          @ ''\<newline>### Recommendations\<newline>\<newline>''
          @ concat (map (\<lambda>rec. ''- '' @ rec @ ''\<newline>'')
              [''Review and update customer risk profile'',
               ''Implement additional monitoring for high-volume transactions'',
               ''Schedule quarterly compliance review'']))"
proof -
  show ?thesis
    by (simp add: dev_generate_compliance_report [OF assms] upper_char_def lower_char_def)
qed

lemma strftime_sample_clock: "strftime sample_clock = ''2025-03-15 09:05:00''"
  by (simp add: strftime_def sample_clock_def zero_pad_def str_nat.simps digit_char_def)

theorem summary_report_in_development_mode_witness:
  "dev_mode (cfg (sample_world (Some ''1'') (OtherError ''unreachable'')))
   \<and> fst (generate_compliance_report (sample_world (Some ''1'') (OtherError ''unreachable''))
            ''E1'' ''summary'') =
     Inr (''## Summary Compliance Report\<newline>\<newline>**Entity ID**: E1\<newline>''
          @ ''**Report Time**: 2025-03-15 09:05:00\<newline>''
          @ ''**Report Type**: Summary\<newline>\<newline>### Summary\<newline>\<newline>''
          @ ''This entity is generally compliant with current regulations, ''
          @ ''with minor issues requiring attention.\<newline>\<newline>''
          @ ''### Risk Assessment\<newline>\<newline>**Overall Risk**: Medium-Low\<newline>''
          @ ''\<newline>**Risk Factors**:\<newline>- **Transaction Volume**: Medium\<newline>''
          @ ''  - Higher than average transaction volume for this customer segment\<newline>''
          @ ''- **Geographic Risk**: Low\<newline>''
          @ ''  - Operations primarily in low-risk jurisdictions\<newline>''
          @ ''- **Customer Due Diligence**: Low\<newline>''
          @ ''  - All required documentation is complete and verified\<newline>''
          @ ''\<newline>### Compliance Status\<newline>\<newline>**Status**: Compliant with Exceptions\<newline>\<newline>''
          @ ''- **KYC/AML**: Compliant\<newline>  - All KYC requirements met\<newline>''
          @ ''- **Regulatory Reporting**: Compliant with Exceptions\<newline>''
          @ ''  - One late filing in the past quarter\<newline>''
          @ ''- **Transaction Monitoring**: Compliant\<newline>''
          @ ''  - No suspicious activity detected\<newline>''
          @ ''\<newline>### Recommendations\<newline>\<newline>''
          @ ''- Review and update customer risk profile\<newline>''
          @ ''- Implement additional monitoring for high-volume transactions\<newline>''
          @ ''- Schedule quarterly compliance review\<newline>'')"
proof -
  have k: "clock (sample_world (Some ''1'') (OtherError ''unreachable'')) = sample_clock"
    by (simp add: sample_world_def)
  show ?thesis
    using summary_report_in_development_mode [OF dev_sample_world,
        where outcome1 = "OtherError ''unreachable''"]
    by (simp add: dev_sample_world k strftime_sample_clock)
qed

subsection \<open>The timestamp\<close>

lemma digit_char_digit: "n < 10 \<Longrightarrow> digit_char n \<in> set ''0123456789''"
proof -
  assume "n < 10"
  then have "n \<in> {0, 1, 2, 3, 4, 5, 6, 7, 8, 9}" by auto
  then show ?thesis
    by (auto simp: digit_char_def)
qed

lemma str_nat_digits: "set (str_nat n) \<subseteq> set ''0123456789''"
proof (induction n rule: str_nat.induct)
  case (1 n)
  show ?case
  proof (cases "n < 10")
    case True
    then show ?thesis
      using digit_char_digit [of n] by (subst str_nat.simps) simp
  next
    case False
    have "n mod 10 < 10" by simp
    then have "digit_char (n mod 10) \<in> set ''0123456789''"
      by (rule digit_char_digit)
    with False 1 show ?thesis
      by (subst str_nat.simps) simp
  qed
qed

lemma length_str_nat: "0 < k \<Longrightarrow> n < 10 ^ k \<Longrightarrow> length (str_nat n) \<le> k"
proof (induction n arbitrary: k rule: str_nat.induct)
  case (1 n)
  show ?case
  proof (cases "n < 10")
    case True
    with 1(2) show ?thesis
      by (subst str_nat.simps) simp
  next
    case False
    with 1(3) have "1 < k"
      by (cases "k = 1") (use 1(2) in auto)
    then obtain j where k: "k = Suc j" and j: "0 < j"
      by (cases k) auto
    from 1(3) k have "n div 10 < 10 ^ j"
      by (simp add: less_mult_imp_div_less mult.commute)
    with 1(1) [OF False j] have "length (str_nat (n div 10)) \<le> j" .
    with False k show ?thesis
      by (subst str_nat.simps) simp
  qed
qed

lemma zero_pad_digits: "set (zero_pad w n) \<subseteq> set ''0123456789''"
  using str_nat_digits [of n] by (auto simp: zero_pad_def)

lemma length_zero_pad: "0 < w \<Longrightarrow> n < 10 ^ w \<Longrightarrow> length (zero_pad w n) = w"
  using length_str_nat [of w n] by (simp add: zero_pad_def)

lemma fits_digits:
  "length s = k \<Longrightarrow> set s \<subseteq> set ''0123456789'' \<Longrightarrow> list_all2 fits (replicate k Digit) s"
  by (auto simp: list_all2_conv_all_nth subset_iff dest!: nth_mem)

lemma zero_pad_fits: "0 < w \<Longrightarrow> n < 10 ^ w \<Longrightarrow> list_all2 fits (replicate w Digit) (zero_pad w n)"
  by (rule fits_digits [OF length_zero_pad zero_pad_digits])

lemma timestamp_pattern_parts:
  "timestamp_pattern =
     replicate 4 Digit @ [Lit CHR ''-''] @ replicate 2 Digit @ [Lit CHR ''-''] @ replicate 2 Digit
       @ [Lit CHR '' ''] @ replicate 2 Digit @ [Lit CHR '':''] @ replicate 2 Digit
       @ [Lit CHR '':''] @ replicate 2 Digit"
  by (simp add: timestamp_pattern_def numeral_eq_Suc)

lemma strftime_matches: "valid_datetime t \<Longrightarrow> matches_timestamp (strftime t)"
  unfolding matches_timestamp_def timestamp_pattern_parts strftime_def valid_datetime_def
  by (intro list_all2_appendI zero_pad_fits) simp_all

lemma clock_split:
  assumes "\<And>t post. g t post = a @ b @ c @ strftime t @ d @ post"
  shows "(\<forall>t1 t2. error_or phrase data (concat_res (Inr a # Inr b # Inr (c @ strftime t1 @ d) # ps))
             = error_or phrase data (concat_res (Inr a # Inr b # Inr (c @ strftime t2 @ d) # ps)))
   \<or> (\<exists>post. \<forall>t. error_or phrase data (concat_res (Inr a # Inr b # Inr (c @ strftime t @ d) # ps))
             = Inr (g t post))"
proof (cases "py_in ''error'' data")
  case (Inl e)
  then show ?thesis by (simp add: error_or_def bind_res_def)
next
  case (Inr has_error)
  show ?thesis
  proof (cases has_error)
    case True
    with Inr show ?thesis by (simp add: error_or_def bind_res_def)
  next
    case False
    show ?thesis
    proof (cases "concat_res ps")
      case (Inl e)
      with Inr False show ?thesis by (simp add: error_or_def bind_res_def)
    next
      case post: (Inr post)
      with Inr False assms have "\<forall>t. error_or phrase data
          (concat_res (Inr a # Inr b # Inr (c @ strftime t @ d) # ps))
          = Inr (g t post)"
        by (simp add: error_or_def bind_res_def)
      then show ?thesis by blast
    qed
  qed
qed

text \<open>
  Claim C8. A report is a function of the payload, the arguments and the clock, so the
  same inputs give the same text. The clock enters a report only through the one
  timestamp: for each handler either the result is the same for all clocks (the error
  line, or an exception), or it is a fixed text, the timestamp, and a fixed rest.
  \<^verbatim>\<open>get_regulatory_updates\<close> does not read the clock at all. For a valid date and time
  the timestamp has the shape \<^verbatim>\<open>YYYY-MM-DD HH:MM:SS\<close>.
\<close>

theorem clock_only_in_timestamp:
  "(valid_datetime t \<longrightarrow> matches_timestamp (strftime t))
   \<and> ((\<forall>t1 t2. analyze_transaction_report t1 transaction_id data
                 = analyze_transaction_report t2 transaction_id data)
      \<or> (\<exists>post. \<forall>t'. analyze_transaction_report t' transaction_id data
             = Inr (''## Transaction Compliance Analysis\<newline>\<newline>**Transaction ID**: ''
                    @ transaction_id @ ''\<newline>**Analysis Time**: '' @ strftime t'
                    @ ''\<newline>\<newline>'' @ post)))
   \<and> ((\<forall>t1 t2. verify_customer_kyc_report t1 customer_id data
                 = verify_customer_kyc_report t2 customer_id data)
      \<or> (\<exists>post. \<forall>t'. verify_customer_kyc_report t' customer_id data
             = Inr (''## Customer KYC Verification\<newline>\<newline>**Customer ID**: ''
                    @ customer_id @ ''\<newline>**Verification Time**: '' @ strftime t'
                    @ ''\<newline>\<newline>'' @ post)))
   \<and> ((\<forall>t1 t2. analyze_communication_report t1 communication_id data
                 = analyze_communication_report t2 communication_id data)
      \<or> (\<exists>post. \<forall>t'. analyze_communication_report t' communication_id data
             = Inr (''## Communication Compliance Analysis\<newline>\<newline>**Communication ID**: ''
                    @ communication_id @ ''\<newline>**Analysis Time**: '' @ strftime t'
                    @ ''\<newline>\<newline>'' @ post)))
   \<and> ((\<forall>t1 t2. generate_compliance_report_report t1 entity_id report_type data
                 = generate_compliance_report_report t2 entity_id report_type data)
      \<or> (\<exists>post. \<forall>t'. generate_compliance_report_report t' entity_id report_type data
             = Inr (''## '' @ capitalize report_type @ '' Compliance Report\<newline>\<newline>**Entity ID**: ''
                    @ entity_id @ ''\<newline>**Report Time**: '' @ strftime t'
                    @ ''\<newline>'' @ post)))
   \<and> get_regulatory_updates (w\<lparr>clock := t\<rparr>) = get_regulatory_updates w"
proof (intro conjI)
  show "valid_datetime t \<longrightarrow> matches_timestamp (strftime t)"
    by (simp add: strftime_matches)
  show "(\<forall>t1 t2. analyze_transaction_report t1 transaction_id data
                 = analyze_transaction_report t2 transaction_id data)
      \<or> (\<exists>post. \<forall>t'. analyze_transaction_report t' transaction_id data
             = Inr (''## Transaction Compliance Analysis\<newline>\<newline>**Transaction ID**: ''
                    @ transaction_id @ ''\<newline>**Analysis Time**: '' @ strftime t'
                    @ ''\<newline>\<newline>'' @ post))"
    unfolding analyze_transaction_report_def
    by (rule clock_split) simp
  show "(\<forall>t1 t2. verify_customer_kyc_report t1 customer_id data
                 = verify_customer_kyc_report t2 customer_id data)
      \<or> (\<exists>post. \<forall>t'. verify_customer_kyc_report t' customer_id data
             = Inr (''## Customer KYC Verification\<newline>\<newline>**Customer ID**: ''
                    @ customer_id @ ''\<newline>**Verification Time**: '' @ strftime t'
                    @ ''\<newline>\<newline>'' @ post))"
    unfolding verify_customer_kyc_report_def
    by (rule clock_split) simp
  show "(\<forall>t1 t2. analyze_communication_report t1 communication_id data
                 = analyze_communication_report t2 communication_id data)
      \<or> (\<exists>post. \<forall>t'. analyze_communication_report t' communication_id data
             = Inr (''## Communication Compliance Analysis\<newline>\<newline>**Communication ID**: ''
                    @ communication_id @ ''\<newline>**Analysis Time**: '' @ strftime t'
                    @ ''\<newline>\<newline>'' @ post))"
    unfolding analyze_communication_report_def
    by (rule clock_split) simp
  show "(\<forall>t1 t2. generate_compliance_report_report t1 entity_id report_type data
                 = generate_compliance_report_report t2 entity_id report_type data)
      \<or> (\<exists>post. \<forall>t'. generate_compliance_report_report t' entity_id report_type data
             = Inr (''## '' @ capitalize report_type @ '' Compliance Report\<newline>\<newline>**Entity ID**: ''
                    @ entity_id @ ''\<newline>**Report Time**: '' @ strftime t'
                    @ ''\<newline>'' @ post))"
    unfolding generate_compliance_report_report_def
    by (rule clock_split) simp
  show "get_regulatory_updates (w\<lparr>clock := t\<rparr>) = get_regulatory_updates w"
    by (simp add: get_regulatory_updates_def)
qed

lemma valid_sample_clock: "valid_datetime sample_clock"
  by (simp add: valid_datetime_def sample_clock_def)

theorem clock_only_in_timestamp_witness:
  "valid_datetime sample_clock
   \<and> matches_timestamp ''2025-03-15 09:05:00''
   \<and> ((\<forall>t1 t2. analyze_transaction_report t1 ''TX123'' (JObj [])
                 = analyze_transaction_report t2 ''TX123'' (JObj []))
      \<or> (\<exists>post. \<forall>t'. analyze_transaction_report t' ''TX123'' (JObj [])
             = Inr (''## Transaction Compliance Analysis\<newline>\<newline>**Transaction ID**: TX123''
                    @ ''\<newline>**Analysis Time**: '' @ strftime t' @ ''\<newline>\<newline>'' @ post)))
   \<and> get_regulatory_updates
         ((sample_world None (Response 200 ''{}'' (Inr (JObj []))))\<lparr>clock := sample_clock\<rparr>)
       = get_regulatory_updates (sample_world None (Response 200 ''{}'' (Inr (JObj []))))"
  using clock_only_in_timestamp [where t = sample_clock and transaction_id = "''TX123''"
      and customer_id = "''C1''" and communication_id = "''M1''" and entity_id = "''E1''"
      and report_type = "''summary''" and data = "JObj []"
      and w = "sample_world None (Response 200 ''{}'' (Inr (JObj [])))"]
  by (simp add: valid_sample_clock strftime_sample_clock)

subsection \<open>Handlers on well-shaped payloads\<close>

lemma returns_Inr [simp]: "returns (Inr x)"
  by (simp add: returns_def)

lemma returns_Inl [simp]: "\<not> returns (Inl e)"
  by (simp add: returns_def)

lemma returns_iff: "returns r \<longleftrightarrow> (\<exists>x. r = Inr x)"
  by (cases r) simp_all

lemma returns_concat_res: "returns (concat_res ps) \<longleftrightarrow> list_all returns ps"
  by (induction ps rule: concat_res.induct) (auto split: sum.splits)

lemma optional_is_dict: "optional k P d \<Longrightarrow> is_dict d"
  by (cases d) (simp_all add: optional_def is_dict_def)

lemma has_keys_is_dict: "has_keys ks d \<Longrightarrow> is_dict d"
  by (cases d) (simp_all add: has_keys_def is_dict_def)

lemma returns_fmt_item: "has_keys ks d \<Longrightarrow> k \<in> set ks \<Longrightarrow> returns (fmt_item d k)"
  by (cases d) (auto simp: has_keys_def fmt_item_def bind_res_def list_all_iff)

lemma returns_fmt_get: "is_dict d \<Longrightarrow> returns (fmt_get d k dflt)"
  by (cases d) (simp_all add: is_dict_def fmt_get_def bind_res_def)

lemma returns_when_present_text:
  "is_dict d \<Longrightarrow> returns (when_present d k (\<lambda>v. Inr (g v)))"
  by (cases d) (auto simp: is_dict_def when_present_def bind_res_def)

lemma returns_when_present:
  "optional k P d \<Longrightarrow> (\<And>v. P v \<Longrightarrow> returns (f v)) \<Longrightarrow> returns (when_present d k f)"
  by (cases d) (auto simp: optional_def when_present_def bind_res_def)

lemma returns_when_truthy_for:
  assumes "optional k (list_of P) d" and "\<And>x. P x \<Longrightarrow> returns (f x)"
  shows "returns (when_truthy_for d k head f other)"
proof (cases d)
  case (JObj kvs)
  show ?thesis
  proof (cases "map_of kvs k")
    case None
    with JObj show ?thesis
      by (simp add: when_truthy_for_def truthy_key_def bind_res_def)
  next
    case (Some v)
    with JObj assms(1) obtain xs where v: "v = JList xs" and xs: "list_all P xs"
      by (cases v) (simp_all add: optional_def list_of_def)
    from xs assms(2) have "list_all returns (map f xs)"
      by (simp add: list_all_iff)
    then have "returns (concat_res [Inr head, concat_res (map f xs)])"
      unfolding returns_concat_res by (simp add: returns_concat_res)
    with JObj Some v show ?thesis
      by (simp add: when_truthy_for_def truthy_key_def bind_res_def py_for_def
            del: concat_res.simps)
  qed
qed (use assms(1) in \<open>simp_all add: optional_def\<close>)

lemma returns_error_or: "is_dict d \<Longrightarrow> returns body \<Longrightarrow> returns (error_or phrase d body)"
  by (cases d) (auto simp: is_dict_def error_or_def bind_res_def)

lemma error_or_nonempty:
  assumes "error_or phrase d (concat_res (Inr h # ps)) = Inr r" and "phrase \<noteq> []" and "h \<noteq> []"
  shows "r \<noteq> []"
  using assms
  by (auto simp: error_or_def bind_res_def split: sum.splits if_splits)

lemma returns_transaction_issue:
  "has_keys [''category'', ''description''] x \<Longrightarrow> returns (transaction_issue x)"
  unfolding transaction_issue_def returns_concat_res
  by (simp add: returns_fmt_item [where ks = "[''category'', ''description'']"]
        returns_when_present_text has_keys_is_dict)
lemma returns_regulatory_reference:
  "has_keys [''code'', ''description''] x \<Longrightarrow> returns (regulatory_reference x)"
  unfolding regulatory_reference_def returns_concat_res
  by (simp add: returns_fmt_item [where ks = "[''code'', ''description'']"])
lemma returns_communication_issue:
  "has_keys [''category'', ''description''] x \<Longrightarrow> returns (communication_issue x)"
  unfolding communication_issue_def returns_concat_res
  by (simp add: returns_fmt_item [where ks = "[''category'', ''description'']"]
        returns_when_present_text has_keys_is_dict)
lemma returns_risk_factor:
  "has_keys [''name'', ''level''] x \<Longrightarrow> returns (risk_factor x)"
  unfolding risk_factor_def returns_concat_res
  by (simp add: returns_fmt_item [where ks = "[''name'', ''level'']"]
        returns_when_present_text has_keys_is_dict)
lemma returns_status_category:
  "has_keys [''name'', ''status''] x \<Longrightarrow> returns (status_category x)"
  unfolding status_category_def returns_concat_res
  by (simp add: returns_fmt_item [where ks = "[''name'', ''status'']"]
        returns_when_present_text has_keys_is_dict)
lemma returns_watchlist_match: "is_dict x \<Longrightarrow> returns (watchlist_match x)"
  unfolding watchlist_match_def returns_concat_res
  by (simp add: returns_fmt_get)
lemma returns_regulatory_update:
  "optional ''action_items'' (list_of any_value) x \<Longrightarrow> returns (regulatory_update x)"
  unfolding regulatory_update_def returns_concat_res
  by (simp add: returns_fmt_get optional_is_dict
        returns_when_truthy_for [where P = any_value])
lemma returns_identity_verification_section:
  "optional ''issues'' (list_of any_value) x \<Longrightarrow> returns (identity_verification_section x)"
  unfolding identity_verification_section_def returns_concat_res
  by (simp add: returns_fmt_get
        optional_is_dict returns_when_truthy_for [where P = any_value])
lemma returns_aml_screening_section:
  "optional ''matches'' (list_of is_dict) x \<Longrightarrow> returns (aml_screening_section x)"
  unfolding aml_screening_section_def returns_concat_res
  by (simp add: returns_fmt_get
        optional_is_dict returns_when_truthy_for [where P = is_dict] returns_watchlist_match)
lemma returns_risk_assessment_section:
  "optional ''factors'' (list_of (has_keys [''name'', ''level''])) x \<Longrightarrow>
   returns (risk_assessment_section x)"
  unfolding risk_assessment_section_def returns_concat_res
  by (simp add: returns_fmt_get
        optional_is_dict returns_when_truthy_for [where P = "has_keys [''name'', ''level'']"]
        returns_risk_factor)
lemma returns_compliance_status_section:
  "optional ''categories'' (list_of (has_keys [''name'', ''status''])) x \<Longrightarrow>
   returns (compliance_status_section x)"
  unfolding compliance_status_section_def returns_concat_res
  by (simp add: returns_fmt_get
        optional_is_dict returns_when_truthy_for [where P = "has_keys [''name'', ''status'']"]
        returns_status_category)

lemma returns_when_truthy_for_text:
  "optional k (list_of P) d \<Longrightarrow> returns (when_truthy_for d k head (\<lambda>x. Inr (g x)) other)"
  by (rule returns_when_truthy_for) simp_all

lemma returns_analyze_transaction_report:
  assumes "transaction_payload d"
  shows "returns (analyze_transaction_report t transaction_id d)"
proof -
  from assms
  have i: "optional ''issues'' (list_of (has_keys [''category'', ''description''])) d"
    and r: "optional ''regulatory_references'' (list_of (has_keys [''code'', ''description''])) d"
    by (simp_all add: transaction_payload_def)
  note d = optional_is_dict [OF i]
  show ?thesis
    unfolding analyze_transaction_report_def
  proof (rule returns_error_or [OF d], unfold returns_concat_res)
    show "list_all returns
      [Inr ''## Transaction Compliance Analysis\<newline>\<newline>'',
       Inr (''**Transaction ID**: '' @ transaction_id @ ''\<newline>''),
       Inr (''**Analysis Time**: '' @ strftime t @ ''\<newline>\<newline>''),
       when_present d ''compliance_status''
         (\<lambda>v. Inr (''**Compliance Status**: '' @ py_str v @ ''\<newline>'')),
       when_present d ''risk_score''
         (\<lambda>v. Inr (''**Risk Score**: '' @ py_str v @ ''/100\<newline>'')),
       when_truthy_for d ''issues'' ''\<newline>### Identified Issues\<newline>\<newline>''
         transaction_issue ''\<newline>### No compliance issues detected\<newline>'',
       when_truthy_for d ''regulatory_references''
         ''\<newline>### Regulatory References\<newline>\<newline>'' regulatory_reference []]"
      using returns_when_present_text [OF d]
        returns_when_truthy_for [OF i returns_transaction_issue]
        returns_when_truthy_for [OF r returns_regulatory_reference]
      by simp
  qed
qed

lemma returns_verify_customer_kyc_report:
  assumes "kyc_payload d"
  shows "returns (verify_customer_kyc_report t customer_id d)"
proof -
  from assms
  have i: "optional ''identity_verification'' (optional ''issues'' (list_of any_value)) d"
    and a: "optional ''aml_screening'' (optional ''matches'' (list_of is_dict)) d"
    and r: "optional ''required_actions'' (list_of any_value) d"
    by (simp_all add: kyc_payload_def)
  note d = optional_is_dict [OF i]
  show ?thesis
    unfolding verify_customer_kyc_report_def
  proof (rule returns_error_or [OF d], unfold returns_concat_res)
    show "list_all returns
      [Inr ''## Customer KYC Verification\<newline>\<newline>'',
       Inr (''**Customer ID**: '' @ customer_id @ ''\<newline>''),
       Inr (''**Verification Time**: '' @ strftime t @ ''\<newline>\<newline>''),
       when_present d ''verification_status''
         (\<lambda>v. Inr (''**Verification Status**: '' @ py_str v @ ''\<newline>'')),
       when_present d ''verification_date''
         (\<lambda>v. Inr (''**Last Verified**: '' @ py_str v @ ''\<newline>'')),
       when_present d ''identity_verification'' identity_verification_section,
       when_present d ''aml_screening'' aml_screening_section,
       when_truthy_for d ''required_actions'' ''\<newline>### Required Actions\<newline>\<newline>''
         (\<lambda>action. Inr (''- '' @ py_str action @ ''\<newline>'')) []]"
      using returns_when_present_text [OF d]
        returns_when_present [OF i returns_identity_verification_section]
        returns_when_present [OF a returns_aml_screening_section]
        returns_when_truthy_for_text [OF r]
      by simp
  qed
qed

lemma returns_sentiment:
  "is_dict x \<Longrightarrow>
   returns (concat_res [Inr ''**Sentiment**: '', fmt_get x ''overall'' (JStr ''Unknown''),
                        Inr ''\<newline>''])"
  unfolding returns_concat_res by (simp add: returns_fmt_get)

lemma returns_analyze_communication_report:
  assumes "communication_payload d"
  shows "returns (analyze_communication_report t communication_id d)"
proof -
  from assms
  have s: "optional ''sentiment_analysis'' is_dict d"
    and i: "optional ''issues'' (list_of (has_keys [''category'', ''description''])) d"
    and r: "optional ''recommendations'' (list_of any_value) d"
    by (simp_all add: communication_payload_def)
  note d = optional_is_dict [OF i]
  show ?thesis
    unfolding analyze_communication_report_def
  proof (rule returns_error_or [OF d], unfold returns_concat_res)
    show "list_all returns
      [Inr ''## Communication Compliance Analysis\<newline>\<newline>'',
       Inr (''**Communication ID**: '' @ communication_id @ ''\<newline>''),
       Inr (''**Analysis Time**: '' @ strftime t @ ''\<newline>\<newline>''),
       when_present d ''communication_type''
         (\<lambda>v. Inr (''**Type**: '' @ py_str v @ ''\<newline>'')),
       when_present d ''compliance_status''
         (\<lambda>v. Inr (''**Compliance Status**: '' @ py_str v @ ''\<newline>'')),
       when_present d ''sentiment_analysis''
         (\<lambda>sentiment.
            concat_res
              [Inr ''**Sentiment**: '', fmt_get sentiment ''overall'' (JStr ''Unknown''),
               Inr ''\<newline>'']),
       when_truthy_for d ''issues'' ''\<newline>### Identified Issues\<newline>\<newline>''
         communication_issue ''\<newline>### No compliance issues detected\<newline>'',
       when_truthy_for d ''recommendations'' ''\<newline>### Recommendations\<newline>\<newline>''
         (\<lambda>rec. Inr (''- '' @ py_str rec @ ''\<newline>'')) []]"
      using returns_when_present_text [OF d]
        returns_when_present [OF s returns_sentiment]
        returns_when_truthy_for [OF i returns_communication_issue]
        returns_when_truthy_for_text [OF r]
      by (simp del: concat_res.simps)
  qed
qed

lemma returns_get_regulatory_updates_report:
  assumes "updates_payload d"
  shows "returns (get_regulatory_updates_report d)"
proof -
  from assms
  have u: "optional ''updates'' (list_of (optional ''action_items'' (list_of any_value))) d"
    by (simp add: updates_payload_def)
  note d = optional_is_dict [OF u]
  show ?thesis
    unfolding get_regulatory_updates_report_def
  proof (rule returns_error_or [OF d], unfold returns_concat_res)
    show "list_all returns
      [Inr ''## Recent Regulatory Updates\<newline>\<newline>'',
       when_truthy_for d ''updates'' [] regulatory_update
         ''No recent regulatory updates available.\<newline>'']"
      using returns_when_truthy_for [OF u returns_regulatory_update]
      by simp
  qed
qed

lemma returns_generate_compliance_report_report:
  assumes "report_payload d"
  shows "returns (generate_compliance_report_report t entity_id report_type d)"
proof -
  from assms
  have a: "optional ''risk_assessment''
             (optional ''factors'' (list_of (has_keys [''name'', ''level'']))) d"
    and c: "optional ''compliance_status''
             (optional ''categories'' (list_of (has_keys [''name'', ''status'']))) d"
    and r: "optional ''recommendations'' (list_of any_value) d"
    by (simp_all add: report_payload_def)
  note d = optional_is_dict [OF a]
  show ?thesis
    unfolding generate_compliance_report_report_def
  proof (rule returns_error_or [OF d], unfold returns_concat_res)
    show "list_all returns
      [Inr (''## '' @ capitalize report_type @ '' Compliance Report\<newline>\<newline>''),
       Inr (''**Entity ID**: '' @ entity_id @ ''\<newline>''),
       Inr (''**Report Time**: '' @ strftime t @ ''\<newline>''),
       Inr (''**Report Type**: '' @ capitalize report_type @ ''\<newline>\<newline>''),
       when_present d ''summary''
         (\<lambda>v. Inr (''### Summary\<newline>\<newline>'' @ py_str v @ ''\<newline>\<newline>'')),
       when_present d ''risk_assessment'' risk_assessment_section,
       when_present d ''compliance_status'' compliance_status_section,
       when_truthy_for d ''recommendations'' ''\<newline>### Recommendations\<newline>\<newline>''
         (\<lambda>rec. Inr (''- '' @ py_str rec @ ''\<newline>'')) []]"
      using returns_when_present_text [OF d]
        returns_when_present [OF a returns_risk_assessment_section]
        returns_when_present [OF c returns_compliance_status_section]
        returns_when_truthy_for_text [OF r]
      by simp
  qed
qed

text \<open>
  Claim C1, as the code has it. An entry of \<^verbatim>\<open>issues\<close> without \<^verbatim>\<open>category\<close> ends
  \<^verbatim>\<open>analyze_transaction\<close> with a \<^verbatim>\<open>KeyError\<close>: no report is produced.
\<close>

theorem issue_without_category_raises:
  "analyze_transaction_report sample_clock ''TX123''
     (JObj [(''compliance_status'', JStr ''COMPLIANT''),
            (''issues'', JList [JObj [(''description'', JStr ''Missing documentation'')]])])
   = Inl (KeyError ''category'')"
  by (simp add: analyze_transaction_report_def render_defs)

lemma returns_nonempty:
  assumes "returns (error_or phrase d (concat_res (Inr h # ps)))" and "phrase \<noteq> []" and "h \<noteq> []"
  shows "\<exists>r. error_or phrase d (concat_res (Inr h # ps)) = Inr r \<and> r \<noteq> []"
proof -
  from assms(1) obtain r where r: "error_or phrase d (concat_res (Inr h # ps)) = Inr r"
    unfolding returns_iff ..
  from r assms(2,3) have "r \<noteq> []"
    by (rule error_or_nonempty)
  with r show ?thesis
    by simp
qed

lemma tx_nonempty:
  assumes "transaction_payload d"
  shows "\<exists>r. analyze_transaction_report t transaction_id d = Inr r \<and> r \<noteq> []"
  using returns_analyze_transaction_report [OF assms, of t transaction_id]
  unfolding analyze_transaction_report_def
  by (rule returns_nonempty) simp_all

lemma kyc_nonempty:
  assumes "kyc_payload d"
  shows "\<exists>r. verify_customer_kyc_report t customer_id d = Inr r \<and> r \<noteq> []"
  using returns_verify_customer_kyc_report [OF assms, of t customer_id]
  unfolding verify_customer_kyc_report_def
  by (rule returns_nonempty) simp_all

lemma communication_nonempty:
  assumes "communication_payload d"
  shows "\<exists>r. analyze_communication_report t communication_id d = Inr r \<and> r \<noteq> []"
  using returns_analyze_communication_report [OF assms, of t communication_id]
  unfolding analyze_communication_report_def
  by (rule returns_nonempty) simp_all

lemma updates_nonempty:
  assumes "updates_payload d"
  shows "\<exists>r. get_regulatory_updates_report d = Inr r \<and> r \<noteq> []"
  using returns_get_regulatory_updates_report [OF assms]
  unfolding get_regulatory_updates_report_def
  by (rule returns_nonempty) simp_all

lemma report_nonempty:
  assumes "report_payload d"
  shows "\<exists>r. generate_compliance_report_report t entity_id report_type d = Inr r \<and> r \<noteq> []"
  using returns_generate_compliance_report_report [OF assms, of t entity_id report_type]
  unfolding generate_compliance_report_report_def
  by (rule returns_nonempty) simp_all

text \<open>
  Claim C1, amended. On every payload dictionary, with or without the key \<^verbatim>\<open>error\<close>
  and with any of the optional fields present or absent, each handler returns a report
  that is not empty, provided the sections that are present are well shaped: a list where
  the handler iterates, a dictionary where it calls \<^verbatim>\<open>.get\<close>, and in every entry of
  \<^verbatim>\<open>issues\<close>, \<^verbatim>\<open>regulatory_references\<close>, \<^verbatim>\<open>factors\<close> and \<^verbatim>\<open>categories\<close> the two
  keys that the handler subscripts.
\<close>

theorem well_shaped_payload_renders:
  "(transaction_payload d \<longrightarrow>
      (\<exists>r. analyze_transaction_report t transaction_id d = Inr r \<and> r \<noteq> []))
   \<and> (kyc_payload d \<longrightarrow>
      (\<exists>r. verify_customer_kyc_report t customer_id d = Inr r \<and> r \<noteq> []))
   \<and> (communication_payload d \<longrightarrow>
      (\<exists>r. analyze_communication_report t communication_id d = Inr r \<and> r \<noteq> []))
   \<and> (updates_payload d \<longrightarrow>
      (\<exists>r. get_regulatory_updates_report d = Inr r \<and> r \<noteq> []))
   \<and> (report_payload d \<longrightarrow>
      (\<exists>r. generate_compliance_report_report t entity_id report_type d = Inr r \<and> r \<noteq> []))"
proof (intro conjI impI)
  show "transaction_payload d \<Longrightarrow>
      \<exists>r. analyze_transaction_report t transaction_id d = Inr r \<and> r \<noteq> []"
    by (rule tx_nonempty)
  show "kyc_payload d \<Longrightarrow> \<exists>r. verify_customer_kyc_report t customer_id d = Inr r \<and> r \<noteq> []"
    by (rule kyc_nonempty)
  show "communication_payload d \<Longrightarrow>
      \<exists>r. analyze_communication_report t communication_id d = Inr r \<and> r \<noteq> []"
    by (rule communication_nonempty)
  show "updates_payload d \<Longrightarrow> \<exists>r. get_regulatory_updates_report d = Inr r \<and> r \<noteq> []"
    by (rule updates_nonempty)
  show "report_payload d \<Longrightarrow>
      \<exists>r. generate_compliance_report_report t entity_id report_type d = Inr r \<and> r \<noteq> []"
    by (rule report_nonempty)
qed

lemma sparse_payload_shapes:
  "transaction_payload sparse_payload" "kyc_payload sparse_payload"
  "communication_payload sparse_payload" "updates_payload sparse_payload"
  "report_payload sparse_payload"
  by (simp_all add: sparse_payload_def transaction_payload_def kyc_payload_def
        communication_payload_def updates_payload_def report_payload_def
        optional_def list_of_def has_keys_def is_dict_def any_value_def)

theorem well_shaped_payload_renders_witness:
  "transaction_payload sparse_payload \<and> kyc_payload sparse_payload
   \<and> communication_payload sparse_payload \<and> updates_payload sparse_payload
   \<and> report_payload sparse_payload
   \<and> (\<exists>r. analyze_transaction_report sample_clock ''TX123'' sparse_payload = Inr r \<and> r \<noteq> [])
   \<and> (\<exists>r. verify_customer_kyc_report sample_clock ''C1'' sparse_payload = Inr r \<and> r \<noteq> [])
   \<and> (\<exists>r. analyze_communication_report sample_clock ''M1'' sparse_payload = Inr r \<and> r \<noteq> [])
   \<and> (\<exists>r. get_regulatory_updates_report sparse_payload = Inr r \<and> r \<noteq> [])
   \<and> (\<exists>r. generate_compliance_report_report sample_clock ''E1'' ''summary'' sparse_payload
            = Inr r \<and> r \<noteq> [])"
  using well_shaped_payload_renders [of sparse_payload sample_clock "''TX123''" "''C1''" "''M1''"
      "''E1''" "''summary''"]
    sparse_payload_shapes
  by simp

subsection \<open>Fallback texts\<close>

lemma sublist_append_before: "sublist s t \<Longrightarrow> sublist s (p @ t)"
  unfolding sublist_def by (metis append.assoc)

lemma sublist_concat_res: "concat_res ps = Inr r \<Longrightarrow> Inr s \<in> set ps \<Longrightarrow> sublist s r"
proof (induction ps arbitrary: r rule: concat_res.induct)
  case 1
  then show ?case by simp
next
  case (2 e ps)
  then show ?case by simp
next
  case (3 s' ps)
  from 3(2) obtain t where t: "concat_res ps = Inr t" and r: "r = s' @ t"
    by (auto split: sum.splits)
  show ?case
  proof (cases "s = s'")
    case True
    with r show ?thesis by (simp add: sublist_append_rightI)
  next
    case False
    with 3(3) have "Inr s \<in> set ps" by simp
    with 3(1) t have "sublist s t" by blast
    with r show ?thesis by (simp add: sublist_append_before)
  qed
qed

lemma section_in_report:
  assumes "error_or phrase (JObj kvs) (concat_res ps) = Inr r"
    and "map_of kvs ''error'' = None" and "Inr s \<in> set ps"
  shows "sublist s r"
  using assms by (simp add: error_or_no_error sublist_concat_res)

lemma when_truthy_for_empty:
  "map_of kvs k = None \<or> map_of kvs k = Some (JList []) \<Longrightarrow>
   when_truthy_for (JObj kvs) k head f other = Inr other"
  by (auto simp: when_truthy_for_def truthy_key_def bind_res_def)

lemma transaction_fallback:
  assumes "map_of kvs ''error'' = None"
    and "map_of kvs ''issues'' = None \<or> map_of kvs ''issues'' = Some (JList [])"
    and "analyze_transaction_report t transaction_id (JObj kvs) = Inr r"
  shows "sublist ''\<newline>### No compliance issues detected\<newline>'' r"
  using assms(3) unfolding analyze_transaction_report_def
  by (rule section_in_report) (simp_all add: assms(1) when_truthy_for_empty [OF assms(2)])

lemma communication_fallback:
  assumes "map_of kvs ''error'' = None"
    and "map_of kvs ''issues'' = None \<or> map_of kvs ''issues'' = Some (JList [])"
    and "analyze_communication_report t communication_id (JObj kvs) = Inr r"
  shows "sublist ''\<newline>### No compliance issues detected\<newline>'' r"
  using assms(3) unfolding analyze_communication_report_def
  by (rule section_in_report) (simp_all add: assms(1) when_truthy_for_empty [OF assms(2)])

lemma updates_fallback:
  assumes "map_of kvs ''error'' = None"
    and "map_of kvs ''updates'' = None \<or> map_of kvs ''updates'' = Some (JList [])"
  shows "get_regulatory_updates_report (JObj kvs)
         = Inr ''## Recent Regulatory Updates\<newline>\<newline>No recent regulatory updates available.\<newline>''"
  by (simp add: get_regulatory_updates_report_def error_or_no_error [OF assms(1)]
        when_truthy_for_empty [OF assms(2)])

text \<open>
  Claim C4. Let a payload dictionary have no key \<^verbatim>\<open>error\<close>. When its \<^verbatim>\<open>issues\<close> are
  absent or the empty list, every report that \<^verbatim>\<open>analyze_transaction\<close> or
  \<^verbatim>\<open>analyze_communication\<close> returns contains the text
  \<^verbatim>\<open>No compliance issues detected\<close>, and a report is returned when the other sections
  are well shaped. When its \<^verbatim>\<open>updates\<close> are absent or the empty list,
  \<^verbatim>\<open>get_regulatory_updates\<close> returns the heading followed by
  \<^verbatim>\<open>No recent regulatory updates available.\<close>
\<close>

theorem empty_lists_render_fallback:
  assumes "map_of kvs ''error'' = None"
  shows "(map_of kvs ''issues'' = None \<or> map_of kvs ''issues'' = Some (JList []) \<longrightarrow>
            (\<forall>r. analyze_transaction_report t transaction_id (JObj kvs) = Inr r \<longrightarrow>
                 sublist ''\<newline>### No compliance issues detected\<newline>'' r)
          \<and> (transaction_payload (JObj kvs) \<longrightarrow>
                (\<exists>r. analyze_transaction_report t transaction_id (JObj kvs) = Inr r
                   \<and> sublist ''\<newline>### No compliance issues detected\<newline>'' r))
          \<and> (\<forall>r. analyze_communication_report t communication_id (JObj kvs) = Inr r \<longrightarrow>
                 sublist ''\<newline>### No compliance issues detected\<newline>'' r)
          \<and> (communication_payload (JObj kvs) \<longrightarrow>
                (\<exists>r. analyze_communication_report t communication_id (JObj kvs) = Inr r
                   \<and> sublist ''\<newline>### No compliance issues detected\<newline>'' r)))
       \<and> (map_of kvs ''updates'' = None \<or> map_of kvs ''updates'' = Some (JList []) \<longrightarrow>
            get_regulatory_updates_report (JObj kvs)
            = Inr ''## Recent Regulatory Updates\<newline>\<newline>No recent regulatory updates available.\<newline>'')"
proof (intro conjI impI allI)
  assume i: "map_of kvs ''issues'' = None \<or> map_of kvs ''issues'' = Some (JList [])"
  show tx: "sublist ''\<newline>### No compliance issues detected\<newline>'' r"
    if "analyze_transaction_report t transaction_id (JObj kvs) = Inr r" for r
    using assms i that by (rule transaction_fallback)
  show co: "sublist ''\<newline>### No compliance issues detected\<newline>'' r"
    if "analyze_communication_report t communication_id (JObj kvs) = Inr r" for r
    using assms i that by (rule communication_fallback)
  show "\<exists>r. analyze_transaction_report t transaction_id (JObj kvs) = Inr r
          \<and> sublist ''\<newline>### No compliance issues detected\<newline>'' r"
    if "transaction_payload (JObj kvs)"
  proof -
    from returns_analyze_transaction_report [OF that, of t transaction_id]
    obtain r where "analyze_transaction_report t transaction_id (JObj kvs) = Inr r"
      unfolding returns_iff ..
    with tx show ?thesis by blast
  qed
  show "\<exists>r. analyze_communication_report t communication_id (JObj kvs) = Inr r
          \<and> sublist ''\<newline>### No compliance issues detected\<newline>'' r"
    if "communication_payload (JObj kvs)"
  proof -
    from returns_analyze_communication_report [OF that, of t communication_id]
    obtain r where "analyze_communication_report t communication_id (JObj kvs) = Inr r"
      unfolding returns_iff ..
    with co show ?thesis by blast
  qed
next
  assume "map_of kvs ''updates'' = None \<or> map_of kvs ''updates'' = Some (JList [])"
  with assms show "get_regulatory_updates_report (JObj kvs)
      = Inr ''## Recent Regulatory Updates\<newline>\<newline>No recent regulatory updates available.\<newline>''"
    by (rule updates_fallback)
qed

theorem empty_lists_render_fallback_witness:
  "map_of no_issues_payload ''error'' = None
   \<and> (map_of no_issues_payload ''issues'' = None
       \<or> map_of no_issues_payload ''issues'' = Some (JList []))
   \<and> (map_of no_issues_payload ''updates'' = None
       \<or> map_of no_issues_payload ''updates'' = Some (JList []))
   \<and> transaction_payload (JObj no_issues_payload)
   \<and> communication_payload (JObj no_issues_payload)
   \<and> (\<exists>r. analyze_transaction_report sample_clock ''TX123'' (JObj no_issues_payload) = Inr r
          \<and> sublist ''\<newline>### No compliance issues detected\<newline>'' r)
   \<and> (\<exists>r. analyze_communication_report sample_clock ''M1'' (JObj no_issues_payload) = Inr r
          \<and> sublist ''\<newline>### No compliance issues detected\<newline>'' r)
   \<and> get_regulatory_updates_report (JObj no_issues_payload)
       = Inr ''## Recent Regulatory Updates\<newline>\<newline>No recent regulatory updates available.\<newline>''"
proof -
  have e: "map_of no_issues_payload ''error'' = None"
    by (simp add: no_issues_payload_def)
  have i: "map_of no_issues_payload ''issues'' = Some (JList [])"
    and u: "map_of no_issues_payload ''updates'' = None"
    by (simp_all add: no_issues_payload_def)
  have s: "transaction_payload (JObj no_issues_payload)"
    "communication_payload (JObj no_issues_payload)"
    by (simp_all add: no_issues_payload_def transaction_payload_def communication_payload_def
          optional_def list_of_def has_keys_def is_dict_def any_value_def)
  show ?thesis
    using empty_lists_render_fallback [OF e, of sample_clock "''TX123''" "''M1''"] e i u s
    by simp
qed

subsection \<open>Placeholders for absent fields\<close>








































end
